theory Spec2Isabelle
  imports Main "HOL-Library.Word" "HOL-Library.Char_ord" "HOL-Library.List_Lexorder"
begin

chapter \<open>Common vocabulary\<close>

text \<open>
  Go functions of this repository return an \<open>error\<close> value, or panic. Both are values of
  the model: a call yields \<open>Ok\<close> with its result, \<open>Err\<close> (the returned error) or
  \<open>Panic\<close>.
\<close>

datatype error =
    ErrUnknownState
  | ErrOutOfDropped
  | ErrInvalidTransition
  | ErrPersist
  | ErrZeroKey
  | ErrNotReady
  | ErrHasChildren
  | ErrNotContained
  | ErrStartsWithKey
  | ErrNotAdjacent
  | ErrNotFound
  | ErrNoCandidate

datatype 'a outcome = Ok 'a | Err error | Panic

text \<open>
  The states of package api: the constants that \<open>parseRangeStateString\<close>,
  \<open>parsePlacementStateString\<close>, the orchestrator and the fixtures of its tests name.
\<close>

datatype RangeState = RsUnknown | RsActive | RsSubsuming | RsObsolete

datatype PlacementState = PsUnknown | PsPending | PsInactive | PsActive | PsMissing | PsDropped

datatype RemoteState =
  NsUnknown | NsPreparing | NsInactive | NsActivating | NsActive | NsDeactivating | NsDropping
  | NsNotFound

datatype Action = Prepare | Activate | Deactivate | Drop

text \<open>
  Modelled from the spec: the table of valid placement state transitions that
  \<open>Keyspace.PlacementToState\<close> validates against is not under src/. The spec's placement
  state machine has Pending to Inactive, Inactive to Active, Active to Inactive, Inactive
  to Dropped, any state but Dropped to Missing, and Missing to Dropped.
\<close>

definition placement_transition :: "PlacementState \<Rightarrow> PlacementState \<Rightarrow> bool" where
  "placement_transition old new =
     ((old = PsPending \<and> new = PsInactive) \<or>
      (old = PsInactive \<and> new = PsActive) \<or>
      (old = PsActive \<and> new = PsInactive) \<or>
      (old = PsInactive \<and> new = PsDropped) \<or>
      (old \<noteq> PsDropped \<and> old \<noteq> PsMissing \<and> new = PsMissing) \<or>
      (old = PsMissing \<and> new = PsDropped))"

chapter \<open>Package ranje: placements and the keyspace\<close>

section \<open>Placement state machine (\<open>DurablePlacement\<close>)\<close>

datatype StatePlacement =
  SpUnknown | SpPending | SpFetching | SpFetched | SpFetchFailed | SpReady | SpTaken | SpDropped

text \<open>
  The struct \<open>DurablePlacement\<close>. The back pointer \<open>rang\<close> is used by \<open>ToState\<close> only
  to call \<open>p.rang.Put()\<close>; the result of that persistence write is an input of the model.
\<close>

record DurablePlacement =
  NodeID :: string
  State :: StatePlacement

text \<open>
  \<open>DurablePlacement.ToState\<close>. \<open>put_ok\<close> is whether \<open>p.rang.Put()\<close> returns nil.
  The two \<open>ok\<close> assignments followed by \<open>panic\<close> are the branches numbered 4 and 6.
  In the branch \<open>old == SpTaken\<close> the two tests of \<open>new\<close> are separate \<open>if\<close>s, and
  the first one clears \<open>p.NodeID\<close> before anything is persisted.
\<close>

definition ToState :: "bool \<Rightarrow> DurablePlacement \<Rightarrow> StatePlacement \<Rightarrow> unit outcome \<times> DurablePlacement" where
  "ToState put_ok p new =
    (let old = State p in
     if new = SpUnknown then (Err ErrUnknownState, p)
     else if old = SpDropped then (Err ErrOutOfDropped, p)
     else if old = SpFetching \<and> new = SpFetchFailed then (Panic, p)
     else if old = SpFetchFailed \<and> new = SpPending then (Panic, p)
     else
       let p1 = (if old = SpTaken \<and> new = SpDropped then p\<lparr>NodeID := ''''\<rparr> else p);
           ok = ((old = SpPending \<and> (new = SpFetching \<or> new = SpReady))
               \<or> (old = SpFetching \<and> new = SpFetched)
               \<or> (old = SpFetched \<and> new = SpReady)
               \<or> (old = SpReady \<and> new = SpTaken)
               \<or> (old = SpTaken \<and> (new = SpDropped \<or> new = SpReady)))
       in if \<not> ok then (Err ErrInvalidTransition, p1)
          else if put_ok then (Ok (), p1\<lparr>State := new\<rparr>)
          else (Err ErrPersist, p1\<lparr>State := old\<rparr>))"

section \<open>Keyspace (\<open>keyspace.go\<close>)\<close>

type_synonym Key = string

text \<open>
  Modelled from the spec: the constant \<open>ZeroKey\<close> is not under src/. It is the zero value
  of the string type \<open>Key\<close>, the sentinel that stands for minus infinity as a range start
  and for plus infinity as a range end.
\<close>

definition ZeroKey :: Key where
  "ZeroKey = ''''"

text \<open>
  Modelled from the spec: the declaration of \<open>StateLocal\<close> is not under src/. These are
  the constants that \<open>keyspace.go\<close> names, and \<open>Unknown\<close> for the zero value that a
  freshly allocated \<open>Range\<close> carries. \<open>Ready\<close> is the spec's Active, \<open>Splitting\<close> and
  \<open>Joining\<close> are its Subsuming.
\<close>

datatype StateLocal = Unknown | Pending | Ready | Splitting | Joining | Obsolete | Quarantined

record Ident =
  Scope :: string
  Key :: "64 word"

record Meta =
  Ident :: Ident
  Start :: Key
  End :: Key

text \<open>
  A \<open>*Range\<close> is an address: the index of the object on the heap. The struct's
  declaration is not under src/; the fields are those that \<open>keyspace.go\<close> reads and writes,
  and the placements, which \<open>DoSplit\<close> and \<open>JoinTwo\<close> never touch.
\<close>

type_synonym ref = nat

record Range =
  Meta :: Meta
  state :: StateLocal
  parents :: "ref list"
  children :: "ref list"
  placements :: "DurablePlacement list"

text \<open>The \<open>Keyspace\<close> struct, together with the heap its pointers point into.\<close>

record mem =
  heap :: "Range list"
  ranges :: "ref list"
  nextIdent :: "64 word"

definition deref :: "mem \<Rightarrow> ref \<Rightarrow> Range option" where
  "deref m r = (if r < length (heap m) then Some (heap m ! r) else None)"

definition store :: "mem \<Rightarrow> ref \<Rightarrow> Range \<Rightarrow> mem" where
  "store m r v = m\<lparr>heap := (heap m)[r := v]\<rparr>"

text \<open>\<open>Keyspace.Range\<close>: a new range with the next ident, every other field zero.\<close>

definition zero_Range :: "64 word \<Rightarrow> Range" where
  "zero_Range n =
     \<lparr>Meta = \<lparr>Ident = \<lparr>Scope = '''', Key = n\<rparr>, Start = ZeroKey, End = ZeroKey\<rparr>,
      state = Unknown, parents = [], children = [], placements = []\<rparr>"

definition ks_Range :: "mem \<Rightarrow> ref \<times> mem" where
  "ks_Range m =
     (length (heap m),
      m\<lparr>heap := heap m @ [zero_Range (nextIdent m)], nextIdent := nextIdent m + 1\<rparr>)"

text \<open>
  Modelled from the spec: \<open>Range.Contains\<close> is not under src/. A range is the half-open
  key interval from start to end, where the zero key is the sentinel for an unbounded side.
\<close>

definition Contains :: "Range \<Rightarrow> Key \<Rightarrow> bool" where
  "Contains r k =
     ((Start (Meta r) = ZeroKey \<or> Start (Meta r) \<le> k) \<and>
      (End (Meta r) = ZeroKey \<or> k < End (Meta r)))"

text \<open>
  Modelled from the spec: \<open>Range.ToState\<close> is not under src/. The range state machine
  has the transitions Active to Subsuming (on split or join) and Subsuming to Obsolete;
  a mutation is persisted before it returns success, and rolled back in memory when the
  write fails (the pattern of \<open>DurablePlacement.ToState\<close>). \<open>put_ok\<close> is the result of
  the write.
\<close>

definition range_transition :: "StateLocal \<Rightarrow> StateLocal \<Rightarrow> bool" where
  "range_transition old new =
     ((old = Ready \<and> (new = Splitting \<or> new = Joining)) \<or>
      ((old = Splitting \<or> old = Joining) \<and> new = Obsolete))"

definition Range_ToState :: "bool \<Rightarrow> Range \<Rightarrow> StateLocal \<Rightarrow> unit outcome \<times> Range" where
  "Range_ToState put_ok r new =
     (if \<not> range_transition (state r) new then (Err ErrInvalidTransition, r)
      else if put_ok then (Ok (), r\<lparr>state := new\<rparr>)
      else (Err ErrPersist, r))"

text \<open>
  \<open>Keyspace.DoSplit\<close>. The receiver's mutex makes the body one step. The checks run in
  the order of the source; the key is compared with \<open>ZeroKey\<close> before \<open>r\<close> is read.
\<close>

definition split_children :: "mem \<Rightarrow> ref \<Rightarrow> Range \<Rightarrow> Key \<Rightarrow> mem" where
  "split_children m r rr k =
     (let (one, m1) = ks_Range m;
          m2 = store m1 one ((heap m1 ! one)
                 \<lparr>Meta := (Meta (heap m1 ! one))\<lparr>Start := Start (Meta rr), End := k\<rparr>,
                  parents := [r]\<rparr>);
          (two, m3) = ks_Range m2;
          m4 = store m3 two ((heap m3 ! two)
                 \<lparr>Meta := (Meta (heap m3 ! two))\<lparr>Start := k, End := End (Meta rr)\<rparr>,
                  parents := [r]\<rparr>);
          m5 = m4\<lparr>ranges := ranges m4 @ [one]\<rparr>;
          m6 = m5\<lparr>ranges := ranges m5 @ [two]\<rparr>
      in store m6 r ((heap m6 ! r)\<lparr>children := [one, two]\<rparr>))"

definition DoSplit :: "bool \<Rightarrow> mem \<Rightarrow> ref \<Rightarrow> Key \<Rightarrow> unit outcome \<times> mem" where
  "DoSplit put_ok m r k =
     (if k = ZeroKey then (Err ErrZeroKey, m)
      else case deref m r of
        None \<Rightarrow> (Panic, m)
      | Some rr \<Rightarrow>
          if state rr \<noteq> Ready then (Err ErrNotReady, m)
          else if length (children rr) > 0 then (Err ErrHasChildren, m)
          else if \<not> Contains rr k then (Err ErrNotContained, m)
          else if k = Start (Meta rr) then (Err ErrStartsWithKey, m)
          else case Range_ToState put_ok rr Splitting of
            (Ok u, rr') \<Rightarrow> (Ok (), split_children (store m r rr') r rr' k)
          | (Err e, rr') \<Rightarrow> (Err e, store m r rr')
          | (Panic, rr') \<Rightarrow> (Panic, store m r rr'))"

text \<open>
  \<open>Keyspace.JoinTwo\<close>. The first loop checks both ranges, then adjacency is checked, then
  the second loop moves the ranges to \<open>Joining\<close> one after the other and returns at the
  first error. \<open>put1\<close> and \<open>put2\<close> are the results of the two persistence writes.
  \<open>one\<close> and \<open>two\<close> are pointers, and each is read where the source reads it.
\<close>

definition join_check :: "mem \<Rightarrow> ref \<Rightarrow> unit outcome" where
  "join_check m r =
     (case deref m r of
        None \<Rightarrow> Panic
      | Some rr \<Rightarrow>
          if state rr \<noteq> Ready then Err ErrNotReady
          else if length (children rr) > 0 then Err ErrHasChildren
          else Ok ())"

definition join_ToState :: "bool \<Rightarrow> mem \<Rightarrow> ref \<Rightarrow> unit outcome \<times> mem" where
  "join_ToState put_ok m r =
     (case deref m r of
        None \<Rightarrow> (Panic, m)
      | Some rr \<Rightarrow> (case Range_ToState put_ok rr Joining of (res, rr') \<Rightarrow> (res, store m r rr')))"

definition join_child :: "mem \<Rightarrow> ref \<Rightarrow> ref \<Rightarrow> ref \<times> mem" where
  "join_child m one two =
     (let (three, m1) = ks_Range m;
          m2 = store m1 three ((heap m1 ! three)
                 \<lparr>Meta := (Meta (heap m1 ! three))
                            \<lparr>Start := Start (Meta (heap m1 ! one)), End := End (Meta (heap m1 ! two))\<rparr>,
                  parents := [one, two]\<rparr>);
          m3 = m2\<lparr>ranges := ranges m2 @ [three]\<rparr>;
          m4 = store m3 one ((heap m3 ! one)\<lparr>children := [three]\<rparr>);
          m5 = store m4 two ((heap m4 ! two)\<lparr>children := [three]\<rparr>)
      in (three, m5))"

definition JoinTwo :: "bool \<Rightarrow> bool \<Rightarrow> mem \<Rightarrow> ref \<Rightarrow> ref \<Rightarrow> ref outcome \<times> mem" where
  "JoinTwo put1 put2 m one two =
     (case join_check m one of
        Err e \<Rightarrow> (Err e, m)
      | Panic \<Rightarrow> (Panic, m)
      | Ok u \<Rightarrow>
     (case join_check m two of
        Err e \<Rightarrow> (Err e, m)
      | Panic \<Rightarrow> (Panic, m)
      | Ok u \<Rightarrow>
     if End (Meta (heap m ! one)) \<noteq> Start (Meta (heap m ! two)) then (Err ErrNotAdjacent, m)
     else
     (case join_ToState put1 m one of
        (Err e, m1) \<Rightarrow> (Err e, m1)
      | (Panic, m1) \<Rightarrow> (Panic, m1)
      | (Ok u, m1) \<Rightarrow>
     (case join_ToState put2 m1 two of
        (Err e, m2) \<Rightarrow> (Err e, m2)
      | (Panic, m2) \<Rightarrow> (Panic, m2)
      | (Ok u, m2) \<Rightarrow>
     (case join_child m2 one two of (three, m3) \<Rightarrow> (Ok three, m3))))))"

subsection \<open>Example keyspaces\<close>

text \<open>
  One range over the whole keyspace, \<open>Ready\<close>, whose placement on node \<open>aaa\<close> is still
  \<open>SpPending\<close>; and two adjacent \<open>Ready\<close> ranges that meet at the key \<open>ggg\<close>.
\<close>

definition ks_single :: mem where
  "ks_single =
     \<lparr>heap = [\<lparr>Meta = \<lparr>Ident = \<lparr>Scope = '''', Key = 1\<rparr>, Start = ZeroKey, End = ZeroKey\<rparr>,
               state = Ready, parents = [], children = [],
               placements = [\<lparr>NodeID = ''aaa'', State = SpPending\<rparr>]\<rparr>],
      ranges = [0], nextIdent = 2\<rparr>"

definition ks_adjacent :: mem where
  "ks_adjacent =
     \<lparr>heap = [\<lparr>Meta = \<lparr>Ident = \<lparr>Scope = '''', Key = 1\<rparr>, Start = ZeroKey, End = ''ggg''\<rparr>,
               state = Ready, parents = [], children = [],
               placements = [\<lparr>NodeID = ''aaa'', State = SpReady\<rparr>]\<rparr>,
              \<lparr>Meta = \<lparr>Ident = \<lparr>Scope = '''', Key = 2\<rparr>, Start = ''ggg'', End = ZeroKey\<rparr>,
               state = Ready, parents = [], children = [],
               placements = [\<lparr>NodeID = ''bbb'', State = SpReady\<rparr>]\<rparr>],
      ranges = [0, 1], nextIdent = 3\<rparr>"

chapter \<open>Package ranje: properties\<close>

section \<open>The placement state machine\<close>

lemma ToState_error_keeps_State:
  "fst (ToState put_ok p new) \<noteq> Ok () \<Longrightarrow> State (snd (ToState put_ok p new)) = State p"
  by (auto simp: ToState_def Let_def)

lemma ToState_persist_failure_is_error:
  "fst (ToState False p new) \<noteq> Ok ()"
  by (auto simp: ToState_def Let_def)

text \<open>
  C7. A transition whose persistence write fails must leave the placement as it was and
  return an error. \<open>ToState\<close> rewinds the \<open>State\<close> field only: entering \<open>SpDropped\<close> from
  \<open>SpTaken\<close> clears \<open>NodeID\<close> before the write, and the rewind does not restore it.
  At the placement of node \<open>n1\<close> in \<open>SpTaken\<close>, with a failing write, the call
  returns the persistence error, the state is \<open>SpTaken\<close> again, and the node id is lost.
\<close>

theorem ToState_Taken_Dropped_persist_failure:
  "ToState False \<lparr>NodeID = ''n1'', State = SpTaken\<rparr> SpDropped
     = (Err ErrPersist, \<lparr>NodeID = '''', State = SpTaken\<rparr>)"
  by (simp add: ToState_def Let_def)

section \<open>Splitting a range\<close>

lemma Nil_less_string: "k \<noteq> [] \<Longrightarrow> [] < (k::string)"
  by (cases k) simp_all

lemma DoSplit_ok_iff:
  "fst (DoSplit put_ok m r k) = Ok () \<longleftrightarrow>
     (\<exists>rr. deref m r = Some rr \<and> k \<noteq> ZeroKey \<and> state rr = Ready \<and> children rr = [] \<and>
        Start (Meta rr) < k \<and> (End (Meta rr) = ZeroKey \<or> k < End (Meta rr)) \<and> put_ok)"
  by (auto simp: DoSplit_def Contains_def Range_ToState_def range_transition_def ZeroKey_def
      Nil_less_string split: option.splits)

lemma DoSplit_failure_unchanged:
  "fst (DoSplit put_ok m r k) \<noteq> Ok () \<Longrightarrow> snd (DoSplit put_ok m r k) = m"
  by (auto simp: DoSplit_def Range_ToState_def range_transition_def store_def deref_def
      split: option.splits if_splits)

lemma DoSplit_success_result:
  assumes "fst (DoSplit put_ok m r k) = Ok ()" and "deref m r = Some rr"
  shows "snd (DoSplit put_ok m r k) =
    \<lparr>heap = (heap m)[r := rr\<lparr>state := Splitting, children := [length (heap m), Suc (length (heap m))]\<rparr>]
        @ [\<lparr>Meta = \<lparr>Ident = \<lparr>Scope = '''', Key = nextIdent m\<rparr>, Start = Start (Meta rr), End = k\<rparr>,
            state = Unknown, parents = [r], children = [], placements = []\<rparr>,
           \<lparr>Meta = \<lparr>Ident = \<lparr>Scope = '''', Key = nextIdent m + 1\<rparr>, Start = k, End = End (Meta rr)\<rparr>,
            state = Unknown, parents = [r], children = [], placements = []\<rparr>],
     ranges = ranges m @ [length (heap m), Suc (length (heap m))],
     nextIdent = nextIdent m + 2\<rparr>"
  using assms
  by (auto simp: DoSplit_def Range_ToState_def range_transition_def store_def deref_def
      split_children_def ks_Range_def zero_Range_def Let_def nth_append list_update_append
      split: option.splits if_splits)

text \<open>
  C4, as the claim states it: a split requires every placement of the range to be active.
  \<open>DoSplit\<close> never reads the placements. The range of \<open>ks_single\<close> is \<open>Ready\<close> while its
  only placement is \<open>SpPending\<close>, and the split at \<open>ccc\<close> succeeds.
\<close>

theorem DoSplit_ignores_placements:
  "fst (DoSplit True ks_single 0 ''ccc'') = Ok () \<and>
   \<not> list_all (\<lambda>p. State p = SpReady) (placements (heap ks_single ! 0))"
  by (simp add: DoSplit_def ks_single_def deref_def Contains_def Range_ToState_def
      range_transition_def ZeroKey_def)

text \<open>
  C4, amended. \<open>DoSplit\<close> of the range at \<open>r\<close> at key \<open>k\<close> succeeds exactly when the key is
  not the zero key, the range is \<open>Ready\<close> and has no children, its start is below \<open>k\<close>,
  \<open>k\<close> is below its end (or the end is unbounded), and the transition is persisted; the
  placements are not consulted. On success the range is \<open>Splitting\<close>, exactly two ranges
  are allocated, with the next two idents and the intervals from the start to \<open>k\<close> and
  from \<open>k\<close> to the end, each with \<open>r\<close> as its only parent, they are appended to the
  keyspace, and they are the children of \<open>r\<close>. Whenever \<open>DoSplit\<close> does not succeed, the
  keyspace and every range are as before.
\<close>

theorem DoSplit_amended:
  "(fst (DoSplit put_ok m r k) = Ok () \<longleftrightarrow>
      (\<exists>rr. deref m r = Some rr \<and> k \<noteq> ZeroKey \<and> state rr = Ready \<and> children rr = [] \<and>
         Start (Meta rr) < k \<and> (End (Meta rr) = ZeroKey \<or> k < End (Meta rr)) \<and> put_ok)) \<and>
   (\<forall>rr. fst (DoSplit put_ok m r k) = Ok () \<and> deref m r = Some rr \<longrightarrow>
      snd (DoSplit put_ok m r k) =
        \<lparr>heap = (heap m)[r := rr\<lparr>state := Splitting,
                                 children := [length (heap m), Suc (length (heap m))]\<rparr>]
            @ [\<lparr>Meta = \<lparr>Ident = \<lparr>Scope = '''', Key = nextIdent m\<rparr>,
                        Start = Start (Meta rr), End = k\<rparr>,
                state = Unknown, parents = [r], children = [], placements = []\<rparr>,
               \<lparr>Meta = \<lparr>Ident = \<lparr>Scope = '''', Key = nextIdent m + 1\<rparr>,
                        Start = k, End = End (Meta rr)\<rparr>,
                state = Unknown, parents = [r], children = [], placements = []\<rparr>],
         ranges = ranges m @ [length (heap m), Suc (length (heap m))],
         nextIdent = nextIdent m + 2\<rparr>) \<and>
   (fst (DoSplit put_ok m r k) \<noteq> Ok () \<longrightarrow> snd (DoSplit put_ok m r k) = m)"
proof (intro conjI allI impI)
  show "fst (DoSplit put_ok m r k) = Ok () \<longleftrightarrow>
      (\<exists>rr. deref m r = Some rr \<and> k \<noteq> ZeroKey \<and> state rr = Ready \<and> children rr = [] \<and>
         Start (Meta rr) < k \<and> (End (Meta rr) = ZeroKey \<or> k < End (Meta rr)) \<and> put_ok)"
    by (rule DoSplit_ok_iff)
next
  fix rr
  assume "fst (DoSplit put_ok m r k) = Ok () \<and> deref m r = Some rr"
  then show "snd (DoSplit put_ok m r k) =
        \<lparr>heap = (heap m)[r := rr\<lparr>state := Splitting,
                                 children := [length (heap m), Suc (length (heap m))]\<rparr>]
            @ [\<lparr>Meta = \<lparr>Ident = \<lparr>Scope = '''', Key = nextIdent m\<rparr>,
                        Start = Start (Meta rr), End = k\<rparr>,
                state = Unknown, parents = [r], children = [], placements = []\<rparr>,
               \<lparr>Meta = \<lparr>Ident = \<lparr>Scope = '''', Key = nextIdent m + 1\<rparr>,
                        Start = k, End = End (Meta rr)\<rparr>,
                state = Unknown, parents = [r], children = [], placements = []\<rparr>],
         ranges = ranges m @ [length (heap m), Suc (length (heap m))],
         nextIdent = nextIdent m + 2\<rparr>"
    using DoSplit_success_result by blast
next
  assume "fst (DoSplit put_ok m r k) \<noteq> Ok ()"
  then show "snd (DoSplit put_ok m r k) = m"
    by (rule DoSplit_failure_unchanged)
qed

text \<open>
  The amended claim at \<open>ks_single\<close>: the split at \<open>ccc\<close> succeeds and yields ranges 2 and 3;
  the split at the zero key, and the split whose transition is not persisted, fail and
  leave the keyspace as it was.
\<close>

theorem DoSplit_amended_witness:
  "fst (DoSplit True ks_single 0 ''ccc'') = Ok () \<and>
   snd (DoSplit True ks_single 0 ''ccc'') =
     \<lparr>heap = [\<lparr>Meta = \<lparr>Ident = \<lparr>Scope = '''', Key = 1\<rparr>, Start = ZeroKey, End = ZeroKey\<rparr>,
               state = Splitting, parents = [], children = [1, 2],
               placements = [\<lparr>NodeID = ''aaa'', State = SpPending\<rparr>]\<rparr>,
              \<lparr>Meta = \<lparr>Ident = \<lparr>Scope = '''', Key = 2\<rparr>, Start = ZeroKey, End = ''ccc''\<rparr>,
               state = Unknown, parents = [0], children = [], placements = []\<rparr>,
              \<lparr>Meta = \<lparr>Ident = \<lparr>Scope = '''', Key = 3\<rparr>, Start = ''ccc'', End = ZeroKey\<rparr>,
               state = Unknown, parents = [0], children = [], placements = []\<rparr>],
      ranges = [0, 1, 2], nextIdent = 4\<rparr> \<and>
   fst (DoSplit True ks_single 0 ZeroKey) \<noteq> Ok () \<and>
   snd (DoSplit True ks_single 0 ZeroKey) = ks_single \<and>
   fst (DoSplit False ks_single 0 ''ccc'') \<noteq> Ok () \<and>
   snd (DoSplit False ks_single 0 ''ccc'') = ks_single"
  using DoSplit_amended [of True ks_single 0 "''ccc''"]
        DoSplit_amended [of True ks_single 0 ZeroKey]
        DoSplit_amended [of False ks_single 0 "''ccc''"]
  by (simp add: ks_single_def deref_def ZeroKey_def)

section \<open>Joining two ranges\<close>

lemma JoinTwo_ok_only_if:
  assumes "fst (JoinTwo put1 put2 m one two) = Ok three"
  shows "\<exists>a b. deref m one = Some a \<and> deref m two = Some b \<and> state a = Ready \<and> state b = Ready \<and>
           children a = [] \<and> children b = [] \<and> End (Meta a) = Start (Meta b) \<and> put1 \<and> put2"
  using assms
  by (auto simp: JoinTwo_def join_check_def join_ToState_def Range_ToState_def range_transition_def
       deref_def store_def split: option.splits if_splits outcome.splits prod.splits)

lemma JoinTwo_success_result:
  assumes "fst (JoinTwo put1 put2 m one two) = Ok three"
      and "deref m one = Some a" and "deref m two = Some b"
  shows "three = length (heap m) \<and> snd (JoinTwo put1 put2 m one two) =
    \<lparr>heap = (heap m)[one := a\<lparr>state := Joining, children := [three]\<rparr>,
                      two := b\<lparr>state := Joining, children := [three]\<rparr>]
        @ [\<lparr>Meta = \<lparr>Ident = \<lparr>Scope = '''', Key = nextIdent m\<rparr>,
                    Start = Start (Meta a), End = End (Meta b)\<rparr>,
            state = Unknown, parents = [one, two], children = [], placements = []\<rparr>],
     ranges = ranges m @ [three],
     nextIdent = nextIdent m + 1\<rparr>"
  using assms
  apply (auto simp: JoinTwo_def join_check_def join_ToState_def Range_ToState_def range_transition_def
       deref_def store_def join_child_def ks_Range_def zero_Range_def Let_def nth_append
       list_update_append nth_list_update
       split: option.splits if_splits outcome.splits prod.splits)
  apply (cases m)
  apply (simp add: list_update_swap [of two one])
  done

lemma JoinTwo_check_failure_unchanged:
  "join_check m one \<noteq> Ok () \<or> join_check m two \<noteq> Ok () \<or>
    End (Meta (heap m ! one)) \<noteq> Start (Meta (heap m ! two)) \<Longrightarrow>
   snd (JoinTwo put1 put2 m one two) = m \<and> fst (JoinTwo put1 put2 m one two) \<noteq> Ok three"
  by (auto simp: JoinTwo_def split: outcome.splits)

text \<open>
  C5. A join that fails must leave both input ranges as they were. \<open>JoinTwo\<close> moves the
  two ranges to \<open>Joining\<close> one after the other and returns at the first error without
  undoing what it did. At the two adjacent \<open>Ready\<close> ranges of \<open>ks_adjacent\<close>, when the
  transition of the first range is persisted and that of the second is not, the call
  returns the error, no range is allocated, the second range is still \<open>Ready\<close>, and the
  first range stays \<open>Joining\<close>.
\<close>

theorem JoinTwo_second_transition_fails:
  "JoinTwo True False ks_adjacent 0 1 =
     (Err ErrPersist,
      \<lparr>heap = [\<lparr>Meta = \<lparr>Ident = \<lparr>Scope = '''', Key = 1\<rparr>, Start = ZeroKey, End = ''ggg''\<rparr>,
                state = Joining, parents = [], children = [],
                placements = [\<lparr>NodeID = ''aaa'', State = SpReady\<rparr>]\<rparr>,
               \<lparr>Meta = \<lparr>Ident = \<lparr>Scope = '''', Key = 2\<rparr>, Start = ''ggg'', End = ZeroKey\<rparr>,
                state = Ready, parents = [], children = [],
                placements = [\<lparr>NodeID = ''bbb'', State = SpReady\<rparr>]\<rparr>],
       ranges = [0, 1], nextIdent = 3\<rparr>)"
  by (simp add: JoinTwo_def join_check_def join_ToState_def Range_ToState_def
      range_transition_def deref_def store_def ks_adjacent_def)

chapter \<open>Package reconciler: probe results against the keyspace\<close>

section \<open>The reconciler\<close>

text \<open>
  \<open>Reconciler.nodeInfo\<close> stores in a map, for each range ident, a pointer to the expected
  placement (\<open>&pbnid\<close>) and a pointer to the reported range (\<open>&rInfo\<close>), where \<open>pbnid\<close> and
  \<open>rInfo\<close> are the variables of two \<open>for ... range\<close> loops. What such a pointer points
  to depends on the language version of the module: before Go 1.22 a loop has one variable,
  which every iteration assigns, so all the stored pointers are equal and, once the loop has
  ended, point to the last element; from Go 1.22 on each iteration has a variable of its
  own. The reconciler belongs to the code written before Go 1.22. Both readings are
  modelled.
\<close>

datatype loopvar = PerLoop | PerIteration

text \<open>
  A \<open>*Placement\<close> is an address; the keyspace's placements are a store from addresses to
  placement states. Of \<open>PBNID.Range\<close> and of \<open>RangeInfo.Meta\<close> only the ident is read.
\<close>

type_synonym pref = nat

record PBNID =
  Range :: Ident
  Placement :: pref
  Position :: nat

record 'ns RangeInfo =
  Meta :: Ident
  State :: 'ns

record 'ns NodeInfo =
  NodeID :: string
  Expired :: bool
  Ranges :: "'ns RangeInfo list"

text \<open>
  What the reconciler takes from packages ranje and roster, whose declarations for this
  file are not under src/: the placement states \<open>SpPending\<close> and \<open>SpGone\<close>, the conversion
  \<open>ToStatePlacement\<close> of a remote state, and whether \<open>Keyspace.PlacementToState\<close> accepts
  a transition. They are parameters; the types of remote states and of placement states
  are type parameters.
\<close>

record ('ns, 'ps) ks_env =
  pending :: 'ps
  gone :: 'ps
  ToStatePlacement :: "'ns \<Rightarrow> 'ps"
  accepts :: "'ps \<Rightarrow> 'ps \<Rightarrow> bool"

text \<open>
  \<open>Keyspace.PlacementToState\<close>: an accepted transition sets the state, a rejected one
  returns an error, which \<open>nodeInfo\<close> only logs.
\<close>

definition PlacementToState ::
  "('ns, 'ps) ks_env \<Rightarrow> (pref \<Rightarrow> 'ps) \<Rightarrow> pref \<Rightarrow> 'ps \<Rightarrow> (pref \<Rightarrow> 'ps)" where
  "PlacementToState env st p new = (if accepts env (st p) new then st(p := new) else st)"

text \<open>
  The two loops that fill the map \<open>states\<close>, read after they have ended: the entry of a
  range ident holds what its pointer then points to.
\<close>

definition collect_expected :: "loopvar \<Rightarrow> PBNID list \<Rightarrow> (Ident \<rightharpoonup> PBNID)" where
  "collect_expected sem exps =
     fold (\<lambda>pbnid states.
             states(Range pbnid \<mapsto> (case sem of PerLoop \<Rightarrow> last exps | PerIteration \<Rightarrow> pbnid)))
          exps Map.empty"

definition collect_actual :: "loopvar \<Rightarrow> 'ns RangeInfo list \<Rightarrow> (Ident \<rightharpoonup> 'ns RangeInfo)" where
  "collect_actual sem infos =
     fold (\<lambda>rInfo states.
             states(Meta rInfo \<mapsto> (case sem of PerLoop \<Rightarrow> last infos | PerIteration \<Rightarrow> rInfo)))
          infos Map.empty"

text \<open>
  The body of the loop over the map. The state of the expected placement is read through
  the pointer when the body runs. The branch for an entry with neither pointer is a panic
  in the source; no entry is made without a pointer, so the loop never reaches it.
\<close>

definition reconcile_pair ::
  "('ns, 'ps) ks_env \<Rightarrow> PBNID option \<Rightarrow> 'ns RangeInfo option \<Rightarrow> (pref \<Rightarrow> 'ps) \<Rightarrow> (pref \<Rightarrow> 'ps)" where
  "reconcile_pair env expected actual st =
     (case expected of
        Some e \<Rightarrow>
          (case actual of
             Some a \<Rightarrow>
               (let exp = st (Placement e); act = ToStatePlacement env (State a)
                in if exp \<noteq> act then PlacementToState env st (Placement e) act else st)
           | None \<Rightarrow>
               if Position e = 0 then
                 if st (Placement e) \<noteq> pending env
                 then PlacementToState env st (Placement e) (gone env)
                 else st
               else st)
      | None \<Rightarrow> st)"

text \<open>
  Go iterates over a map in an order it does not specify: \<open>order\<close> is the order in which
  the idents are visited.
\<close>

fun reconcile ::
  "('ns, 'ps) ks_env \<Rightarrow> (Ident \<rightharpoonup> PBNID) \<Rightarrow> (Ident \<rightharpoonup> 'ns RangeInfo) \<Rightarrow> Ident list
     \<Rightarrow> (pref \<Rightarrow> 'ps) \<Rightarrow> (pref \<Rightarrow> 'ps)" where
  "reconcile env ex ac [] st = st"
| "reconcile env ex ac (rID # rest) st =
     reconcile env ex ac rest (reconcile_pair env (ex rID) (ac rID) st)"

text \<open>
  \<open>Reconciler.nodeInfo\<close>. \<open>exps\<close> is the result of \<open>PlacementsByNodeID\<close> for the probed
  node.
\<close>

definition nodeInfo ::
  "('ns, 'ps) ks_env \<Rightarrow> loopvar \<Rightarrow> PBNID list \<Rightarrow> 'ns NodeInfo \<Rightarrow> Ident list
     \<Rightarrow> (pref \<Rightarrow> 'ps) \<Rightarrow> unit outcome \<times> (pref \<Rightarrow> 'ps)" where
  "nodeInfo env sem exps nInfo order st =
     (if Expired nInfo \<and> length (Ranges nInfo) \<noteq> 0 then (Panic, st)
      else (Ok (), reconcile env (collect_expected sem exps) (collect_actual sem (Ranges nInfo))
                     order st))"

text \<open>
  What the claim says of an expected placement that the node does not report: it is left
  as it was, or it was at position 0, was not pending, and is now gone.
\<close>

definition untouched_or_gone ::
  "('ns, 'ps) ks_env \<Rightarrow> PBNID \<Rightarrow> (pref \<Rightarrow> 'ps) \<Rightarrow> (pref \<Rightarrow> 'ps) \<Rightarrow> bool" where
  "untouched_or_gone env e st st' =
     (st' (Placement e) = st (Placement e) \<or>
      (Position e = 0 \<and> st (Placement e) \<noteq> pending env \<and> st' (Placement e) = gone env))"

subsection \<open>An example probe\<close>

text \<open>
  Node \<open>aaa\<close> is expected to hold the placement of range 1 at position 0, which is
  inactive, and the placement of range 2 at position 1, which has just been created and is
  pending. It reports range 1 only, as inactive. The parameters are those of package api:
  Pending, Missing for gone, and the spec's table of transitions.
\<close>

definition rid :: "64 word \<Rightarrow> Ident" where
  "rid n = \<lparr>Scope = '''', Key = n\<rparr>"

definition api_env :: "(RemoteState, PlacementState) ks_env" where
  "api_env =
     \<lparr>pending = PsPending, gone = PsMissing,
      ToStatePlacement = (\<lambda>ns. case ns of
          NsUnknown \<Rightarrow> PsUnknown | NsPreparing \<Rightarrow> PsPending | NsInactive \<Rightarrow> PsInactive
        | NsActivating \<Rightarrow> PsInactive | NsActive \<Rightarrow> PsActive | NsDeactivating \<Rightarrow> PsActive
        | NsDropping \<Rightarrow> PsInactive | NsNotFound \<Rightarrow> PsMissing),
      accepts = placement_transition\<rparr>"

definition probe_expected :: "PBNID list" where
  "probe_expected =
     [\<lparr>Range = rid 1, Placement = 0, Position = 0\<rparr>, \<lparr>Range = rid 2, Placement = 1, Position = 1\<rparr>]"

definition probe_placements :: "pref \<Rightarrow> PlacementState" where
  "probe_placements = (\<lambda>p. PsUnknown)(0 := PsInactive, 1 := PsPending)"

definition probe_info :: "RemoteState NodeInfo" where
  "probe_info = \<lparr>NodeID = ''aaa'', Expired = False, Ranges = [\<lparr>Meta = rid 1, State = NsInactive\<rparr>]\<rparr>"

section \<open>Properties of the reconciler\<close>

text \<open>
  With a variable per iteration the claim holds, whatever the order of the map and whatever
  the parameters: an expected placement that the node does not report is marked gone only
  at position 0 and when it is not pending, and is left as it was otherwise.
\<close>

lemma fold_expected_PerIteration:
  "fold (\<lambda>pbnid states. states(Range pbnid \<mapsto> pbnid)) exps m k = Some e \<Longrightarrow>
     (e \<in> set exps \<and> Range e = k) \<or> m k = Some e"
proof (induction exps arbitrary: m)
  case Nil
  then show ?case by simp
next
  case (Cons x xs)
  from Cons.prems have "fold (\<lambda>pbnid states. states(Range pbnid \<mapsto> pbnid)) xs (m(Range x \<mapsto> x)) k = Some e"
    by (simp only: fold.simps o_apply)
  from Cons.IH [OF this] show ?case
    by (auto split: if_splits)
qed

lemma collect_expected_PerIteration:
  "collect_expected PerIteration exps k = Some e \<Longrightarrow> e \<in> set exps \<and> Range e = k"
  using fold_expected_PerIteration [of exps Map.empty k e]
  by (simp add: collect_expected_def)

lemma fold_actual_PerIteration:
  "fold (\<lambda>rInfo states. states(Meta rInfo \<mapsto> rInfo)) infos m k = Some a \<Longrightarrow>
     (a \<in> set infos \<and> Meta a = k) \<or> m k = Some a"
proof (induction infos arbitrary: m)
  case Nil
  then show ?case by simp
next
  case (Cons x xs)
  from Cons.prems have "fold (\<lambda>rInfo states. states(Meta rInfo \<mapsto> rInfo)) xs (m(Meta x \<mapsto> x)) k = Some a"
    by (simp only: fold.simps o_apply)
  from Cons.IH [OF this] show ?case
    by (auto split: if_splits)
qed

lemma collect_actual_PerIteration:
  "collect_actual PerIteration infos k = Some a \<Longrightarrow> a \<in> set infos \<and> Meta a = k"
  using fold_actual_PerIteration [of infos Map.empty k a]
  by (simp add: collect_actual_def)

lemma reconcile_pair_elsewhere:
  "p \<noteq> Placement e' \<Longrightarrow> reconcile_pair env (Some e') actual cur p = cur p"
  by (simp add: reconcile_pair_def PlacementToState_def Let_def split: option.splits)

lemma reconcile_pair_unreported:
  assumes inv: "untouched_or_gone env e st cur"
      and ex: "\<And>e'. expected = Some e' \<Longrightarrow> Placement e' = Placement e \<Longrightarrow> e' = e \<and> actual = None"
  shows "untouched_or_gone env e st (reconcile_pair env expected actual cur)"
proof (cases expected)
  case None
  with inv show ?thesis by (simp add: reconcile_pair_def)
next
  case (Some e')
  show ?thesis
  proof (cases "Placement e' = Placement e")
    case True
    with ex Some have "e' = e" "actual = None" by blast+
    with Some inv show ?thesis
      by (auto simp: reconcile_pair_def untouched_or_gone_def PlacementToState_def)
  next
    case False
    then have "reconcile_pair env expected actual cur (Placement e) = cur (Placement e)"
      using Some reconcile_pair_elsewhere [of "Placement e" e' env actual cur] by simp
    with inv show ?thesis
      by (simp add: untouched_or_gone_def)
  qed
qed

lemma reconcile_unreported:
  assumes "untouched_or_gone env e st cur"
      and "\<And>k e'. ex k = Some e' \<Longrightarrow> Placement e' = Placement e \<Longrightarrow> e' = e \<and> ac k = None"
  shows "untouched_or_gone env e st (reconcile env ex ac order cur)"
  using assms
proof (induction order arbitrary: cur)
  case Nil
  then show ?case by simp
next
  case (Cons k ks)
  have "untouched_or_gone env e st (reconcile_pair env (ex k) (ac k) cur)"
    by (rule reconcile_pair_unreported [OF Cons.prems(1)]) (use Cons.prems(2) in blast)
  then show ?case
    using Cons.IH Cons.prems(2) by simp
qed

lemma nodeInfo_PerIteration_unreported:
  assumes "distinct (map Placement exps)"
      and "e \<in> set exps"
      and "Range e \<notin> set (map Meta (Ranges nInfo))"
  shows "untouched_or_gone env e st (snd (nodeInfo env PerIteration exps nInfo order st))"
proof (cases "Expired nInfo \<and> length (Ranges nInfo) \<noteq> 0")
  case True
  then show ?thesis by (simp add: nodeInfo_def untouched_or_gone_def)
next
  case False
  have "untouched_or_gone env e st
          (reconcile env (collect_expected PerIteration exps)
             (collect_actual PerIteration (Ranges nInfo)) order st)"
  proof (rule reconcile_unreported)
    show "untouched_or_gone env e st st" by (simp add: untouched_or_gone_def)
  next
    fix k e'
    assume k: "collect_expected PerIteration exps k = Some e'" and p: "Placement e' = Placement e"
    from k have e': "e' \<in> set exps" "Range e' = k"
      using collect_expected_PerIteration by blast+
    from assms(1) e'(1) assms(2) p have "e' = e"
      by (meson distinct_map inj_onD)
    moreover have "collect_actual PerIteration (Ranges nInfo) k = None"
    proof (rule ccontr)
      assume "collect_actual PerIteration (Ranges nInfo) k \<noteq> None"
      then obtain a where "collect_actual PerIteration (Ranges nInfo) k = Some a" by blast
      then have "a \<in> set (Ranges nInfo)" "Meta a = k"
        using collect_actual_PerIteration by blast+
      with assms(3) e'(2) \<open>e' = e\<close> show False by force
    qed
    ultimately show "e' = e \<and> collect_actual PerIteration (Ranges nInfo) k = None" by simp
  qed
  with False show ?thesis by (auto simp: nodeInfo_def)
qed


text \<open>
  C10. An expected placement that the probed node does not report, and that is pending or
  at a later position, must be left unchanged. With the one variable per loop of the Go
  that this file was written in, every entry of the map points to the last expected
  placement and to the last reported range. In the example probe the entry of range 1 then
  compares the pending placement of range 2 with the report for range 1 and moves it to
  Inactive, though the node does not report range 2, the placement is at position 1 and
  it is pending; this happens in either order of the map. With a variable per iteration
  the placement stays pending.
\<close>

theorem nodeInfo_changes_unreported_pending:
  "snd (nodeInfo api_env PerLoop probe_expected probe_info [rid 1, rid 2] probe_placements) 1
     = PsInactive \<and>
   snd (nodeInfo api_env PerLoop probe_expected probe_info [rid 2, rid 1] probe_placements) 1
     = PsInactive \<and>
   probe_placements 1 = PsPending \<and>
   Position (probe_expected ! 1) = 1 \<and>
   Range (probe_expected ! 1) \<notin> set (map Meta (Ranges probe_info)) \<and>
   snd (nodeInfo api_env PerIteration probe_expected probe_info [rid 1, rid 2] probe_placements) 1
     = PsPending"
  by (simp add: nodeInfo_def collect_expected_def collect_actual_def reconcile_pair_def
      PlacementToState_def api_env_def probe_expected_def probe_info_def probe_placements_def
      rid_def placement_transition_def)

chapter \<open>Package persister/sql: the catalog in a relational store\<close>

section \<open>The vocabulary of package api\<close>

text \<open>
  The field names of the earlier records are reused by the structs of packages api and
  ranje as the persister and the orchestrator see them; from here on they denote the
  fields below.
\<close>

type_synonym RangeID = "64 word"

type_synonym NodeID = string

record api_Meta =
  Ident :: RangeID
  Start :: Key
  End :: Key

text \<open>
  \<open>ranje.Placement\<close> and \<open>ranje.Range\<close>. The declarations are not under src/. The fields
  are those that the persister and the orchestrator read and write; \<open>failed\<close> holds the
  actions for which \<open>p.Failed\<close> answers true. The persister sets \<open>NodeID\<close>,
  \<open>StateCurrent\<close> and \<open>StateDesired\<close> and leaves the rest at the zero value.
\<close>

record ranje_Placement =
  NodeID :: NodeID
  StateCurrent :: PlacementState
  StateDesired :: PlacementState
  IsReplacing :: NodeID
  failed :: "Action set"

record ranje_Range =
  Meta :: api_Meta
  State :: RangeState
  Parents :: "RangeID list"
  Children :: "RangeID list"
  Placements :: "ranje_Placement list"

text \<open>
  The \<open>String\<close> methods are generated (stringer) and not under src/; they print the name
  of the constant, which is what the parsers of the persister and the fixtures of the
  orchestrator tests compare with.
\<close>

fun RangeState_String :: "RangeState \<Rightarrow> string" where
  "RangeState_String RsUnknown = ''RsUnknown''"
| "RangeState_String RsActive = ''RsActive''"
| "RangeState_String RsSubsuming = ''RsSubsuming''"
| "RangeState_String RsObsolete = ''RsObsolete''"

fun PlacementState_String :: "PlacementState \<Rightarrow> string" where
  "PlacementState_String PsUnknown = ''PsUnknown''"
| "PlacementState_String PsPending = ''PsPending''"
| "PlacementState_String PsInactive = ''PsInactive''"
| "PlacementState_String PsActive = ''PsActive''"
| "PlacementState_String PsMissing = ''PsMissing''"
| "PlacementState_String PsDropped = ''PsDropped''"

section \<open>The persister\<close>

definition parsePlacementStateString :: "string \<Rightarrow> PlacementState" where
  "parsePlacementStateString s =
     (if s = ''PsPending'' then PsPending
      else if s = ''PsInactive'' then PsInactive
      else if s = ''PsActive'' then PsActive
      else if s = ''PsMissing'' then PsMissing
      else if s = ''PsDropped'' then PsDropped
      else PsUnknown)"

definition parseRangeStateString :: "string \<Rightarrow> RangeState" where
  "parseRangeStateString s =
     (if s = ''RsActive'' then RsActive
      else if s = ''RsSubsuming'' then RsSubsuming
      else if s = ''RsObsolete'' then RsObsolete
      else RsUnknown)"

text \<open>
  The three tables, as the schema in the persister's comment and in \<open>freshTestDB\<close>
  declares them: \<open>range\<close> with primary key \<open>id\<close>, \<open>child\<close> with primary key
  \<open>(parentId, childId)\<close>, \<open>placement\<close> with primary key \<open>(rangeId, nodeId)\<close>. A table is
  the list of its rows in the order of insertion, and a query returns the rows it selects
  in that order. An \<open>INSERT\<close> of a row whose key is in the table fails.
\<close>

datatype sql_error = UniqueConstraint string

record db =
  range_tbl :: "(RangeID \<times> string \<times> string \<times> string) list"
  child_tbl :: "(RangeID \<times> RangeID) list"
  placement_tbl :: "(RangeID \<times> string \<times> string \<times> string) list"

definition empty_db :: db where
  "empty_db = \<lparr>range_tbl = [], child_tbl = [], placement_tbl = []\<rparr>"

definition insertRange :: "db \<Rightarrow> RangeID \<times> string \<times> string \<times> string \<Rightarrow> sql_error + db" where
  "insertRange d row =
     (if list_ex (\<lambda>r. fst r = fst row) (range_tbl d) then Inl (UniqueConstraint ''range.id'')
      else Inr (d\<lparr>range_tbl := range_tbl d @ [row]\<rparr>))"

definition insertChild :: "db \<Rightarrow> RangeID \<times> RangeID \<Rightarrow> sql_error + db" where
  "insertChild d row =
     (if list_ex (\<lambda>r. r = row) (child_tbl d)
      then Inl (UniqueConstraint ''child.parentId, child.childId'')
      else Inr (d\<lparr>child_tbl := child_tbl d @ [row]\<rparr>))"

definition insertPlacement :: "db \<Rightarrow> RangeID \<times> string \<times> string \<times> string \<Rightarrow> sql_error + db" where
  "insertPlacement d row =
     (if list_ex (\<lambda>r. fst r = fst row \<and> fst (snd r) = fst (snd row)) (placement_tbl d)
      then Inl (UniqueConstraint ''placement.rangeId, placement.nodeId'')
      else Inr (d\<lparr>placement_tbl := placement_tbl d @ [row]\<rparr>))"

text \<open>A loop of \<open>ExecContext\<close> calls that returns at the first error.\<close>

fun exec_all :: "(db \<Rightarrow> 'a \<Rightarrow> sql_error + db) \<Rightarrow> db \<Rightarrow> 'a list \<Rightarrow> sql_error + db" where
  "exec_all f d [] = Inr d"
| "exec_all f d (x # xs) = (case f d x of Inl e \<Rightarrow> Inl e | Inr d' \<Rightarrow> exec_all f d' xs)"

text \<open>
  The body of the loop of \<open>PutRanges\<close> over the ranges: the range row, one \<open>child\<close> row
  \<open>(parentId, id)\<close> for each parent, one \<open>child\<close> row \<open>(id, childId)\<close> for each child, one
  \<open>placement\<close> row for each placement.
\<close>

definition put_range :: "db \<Rightarrow> ranje_Range \<Rightarrow> sql_error + db" where
  "put_range d r =
     (let id = Ident (Meta r) in
      case insertRange d (id, Start (Meta r), End (Meta r), RangeState_String (State r)) of
        Inl e \<Rightarrow> Inl e
      | Inr d1 \<Rightarrow>
      (case exec_all (\<lambda>d parentId. insertChild d (parentId, id)) d1 (Parents r) of
        Inl e \<Rightarrow> Inl e
      | Inr d2 \<Rightarrow>
      (case exec_all (\<lambda>d childId. insertChild d (id, childId)) d2 (Children r) of
        Inl e \<Rightarrow> Inl e
      | Inr d3 \<Rightarrow>
         exec_all (\<lambda>d p. insertPlacement d
            (id, NodeID p, PlacementState_String (StateCurrent p),
             PlacementState_String (StateDesired p))) d3 (Placements r))))"

text \<open>
  \<open>Persister.PutRanges\<close>: all inserts run in one transaction, and the deferred
  \<open>Rollback\<close> undoes them when the function returns an error. Failures of the connection
  itself (\<open>BeginTx\<close>, \<open>Commit\<close>) are not part of the model.
\<close>

definition PutRanges :: "db \<Rightarrow> ranje_Range list \<Rightarrow> sql_error option \<times> db" where
  "PutRanges d rs = (case exec_all put_range d rs of Inl e \<Rightarrow> (Some e, d) | Inr d' \<Rightarrow> (None, d'))"

definition GetParents :: "db \<Rightarrow> RangeID \<Rightarrow> RangeID list" where
  "GetParents d childId = map fst (filter (\<lambda>row. snd row = childId) (child_tbl d))"

definition GetChildren :: "db \<Rightarrow> RangeID \<Rightarrow> RangeID list" where
  "GetChildren d parentId = map snd (filter (\<lambda>row. fst row = parentId) (child_tbl d))"

definition GetPlacements :: "db \<Rightarrow> RangeID \<Rightarrow> ranje_Placement list" where
  "GetPlacements d rangeId =
     map (\<lambda>(rid, nodeId, cur, des).
            \<lparr>NodeID = nodeId, StateCurrent = parsePlacementStateString cur,
             StateDesired = parsePlacementStateString des, IsReplacing = '''', failed = {}\<rparr>)
         (filter (\<lambda>row. fst row = rangeId) (placement_tbl d))"

definition GetRanges :: "db \<Rightarrow> ranje_Range list" where
  "GetRanges d =
     map (\<lambda>(id, start, end, stateString).
            \<lparr>Meta = \<lparr>Ident = id, Start = start, End = end\<rparr>,
             State = parseRangeStateString stateString,
             Parents = GetParents d id,
             Children = GetChildren d id,
             Placements = GetPlacements d id\<rparr>)
         (range_tbl d)"

text \<open>
  The keyspace of the orchestrator test \<open>TestSplit\<close> after its first tick: range 1 is
  subsumed by its children 2 and 3, and each child names range 1 as its parent.
\<close>

definition after_split :: "ranje_Range list" where
  "after_split =
     [\<lparr>Meta = \<lparr>Ident = 1, Start = '''', End = ''''\<rparr>, State = RsSubsuming,
       Parents = [], Children = [2, 3],
       Placements = [\<lparr>NodeID = ''test-aaa'', StateCurrent = PsActive, StateDesired = PsActive,
                      IsReplacing = '''', failed = {}\<rparr>]\<rparr>,
      \<lparr>Meta = \<lparr>Ident = 2, Start = '''', End = ''ccc''\<rparr>, State = RsActive,
       Parents = [1], Children = [],
       Placements = [\<lparr>NodeID = ''test-aaa'', StateCurrent = PsPending, StateDesired = PsPending,
                      IsReplacing = '''', failed = {}\<rparr>]\<rparr>,
      \<lparr>Meta = \<lparr>Ident = 3, Start = ''ccc'', End = ''''\<rparr>, State = RsActive,
       Parents = [1], Children = [],
       Placements = [\<lparr>NodeID = ''test-aaa'', StateCurrent = PsPending, StateDesired = PsPending,
                      IsReplacing = '''', failed = {}\<rparr>]\<rparr>]"

section \<open>Properties of the persister\<close>

lemma parse_RangeState_String: "parseRangeStateString (RangeState_String s) = s"
  by (cases s) (simp_all add: parseRangeStateString_def)

lemma parse_PlacementState_String: "parsePlacementStateString (PlacementState_String s) = s"
  by (cases s) (simp_all add: parsePlacementStateString_def)

text \<open>
  C6. Persisting a keyspace and reloading it must reproduce the range graph. \<open>PutRanges\<close>
  writes every parent link of a range and every child link of a range into the one table
  \<open>child\<close>, whose primary key is the pair. A link that both of its ends record, as every
  link made by a split or a join is, is inserted twice, and the second insert fails. At the
  keyspace \<open>after_split\<close> and an empty store, \<open>PutRanges\<close> returns the constraint error, the
  transaction is rolled back, and \<open>GetRanges\<close> then returns no range at all.
\<close>

theorem PutRanges_after_split_fails:
  "PutRanges empty_db after_split =
     (Some (UniqueConstraint ''child.parentId, child.childId''), empty_db) \<and>
   GetRanges (snd (PutRanges empty_db after_split)) = []"
  by (simp add: PutRanges_def after_split_def put_range_def insertRange_def insertChild_def
        insertPlacement_def empty_db_def GetRanges_def)

chapter \<open>Package orchestrator: the tick\<close>

section \<open>Requests, roster and keyspace as the orchestrator sees them\<close>

text \<open>
  The operator's requests are queued on the orchestrator and applied by the next tick. The
  error channel of a request is optional; a channel is named by a number, and what the tick
  sends on channels is recorded in the event log of the state.
\<close>

type_synonym chan = nat

record OpMove =
  Range :: RangeID
  Src :: NodeID
  Dest :: NodeID
  Err :: "chan option"

record OpSplit =
  Range :: RangeID
  Key :: Key
  Left :: NodeID
  Right :: NodeID
  Err :: "chan option"

record OpJoin =
  Left :: RangeID
  Right :: RangeID
  Dest :: NodeID
  Err :: "chan option"

text \<open>
  Modelled from the spec: the placement constraint of package \<open>ranje\<close>, which names the
  node a placement should go to; \<open>AnyNode\<close> is the constraint with the empty node identifier.
\<close>

datatype Constraint = Constraint NodeID

definition AnyNode :: Constraint where
  "AnyNode = Constraint ''''"

text \<open>
  Modelled from the spec: a roster node, as far as the tick reads it: the remote state it
  last reported for each range (\<open>Node.Get\<close>) and whether it asks to be drained.
\<close>

record Node =
  remote :: "RangeID \<rightharpoonup> RemoteState"
  WantDrain :: bool

text \<open>
  Modelled from the spec: an operation in flight (a split or a join), given by its parent
  and child ranges.
\<close>

record Operation =
  parents :: "RangeID list"
  children :: "RangeID list"

text \<open>
  The errors that the tick forwards to an operator, one constructor for each message format
  of the source, and the events it produces: the channel operations and the callbacks it
  registers, together with a mark for every request taken from a queue and every range ticked.
  A callback is recorded with the channel that it closes when it runs. The callback of a join
  closes \<open>opJoin.Err\<close>, reading the loop variable when it runs, which is after the loop: with
  one variable for the whole loop that is the channel of the last request of the queue, and
  possibly no channel at all.
\<close>

datatype orch_error =
    JoinInvalidLeft error RangeID
  | JoinInvalidRight error RangeID
  | JoinCandidate error
  | JoinFailed error RangeID RangeID
  | SrcNotFound RangeID NodeID
  | NoActivePlacement RangeID
  | AlreadyReplaced NodeID NodeID
  | Plain error

datatype event =
    JoinRequest OpJoin
  | MoveRequest OpMove
  | SplitRequest OpSplit
  | TickRange RangeID
  | ChanSend chan orch_error
  | ChanClose chan
  | OnReady RangeID NodeID "chan option"
  | OnObsolete RangeID chan
  | OnReplaced RangeID NodeID chan

text \<open>
  The roster, the keyspace operations and the gates of an operation are not part of this
  package; the tick takes them from its environment. A gate returns \<open>True\<close> where the source
  returns no error. A keyspace is the list of its ranges, and a range is referred to by its
  position in that list. \<open>Persist p new\<close> tells whether the store accepts the write of the
  placement \<open>p\<close> in the state \<open>new\<close>, and \<open>LoopVar\<close> is the language's rule for the variable
  of a \<open>for\<close> loop, which decides what a closure made in the loop sees later.
\<close>

type_synonym gate = "Operation option \<Rightarrow> ranje_Range list \<Rightarrow> ranje_Placement \<Rightarrow> ranje_Range \<Rightarrow> bool"

record env =
  NodeByIdent :: "NodeID \<Rightarrow> Node option"
  Candidate :: "ranje_Range list \<Rightarrow> ranje_Range option \<Rightarrow> Constraint \<Rightarrow> error + NodeID"
  GetRange :: "ranje_Range list \<Rightarrow> RangeID \<Rightarrow> error + nat"
  JoinTwo :: "ranje_Range list \<Rightarrow> nat \<Rightarrow> nat \<Rightarrow> error + nat \<times> ranje_Range list"
  Split :: "ranje_Range list \<Rightarrow> nat \<Rightarrow> Key \<Rightarrow> error + nat \<times> nat \<times> ranje_Range list"
  Operations :: "ranje_Range list \<Rightarrow> error + Operation list"
  CheckComplete :: "Operation \<Rightarrow> ranje_Range list \<Rightarrow> ranje_Range list \<times> chan list"
  OpRanges :: "Operation \<Rightarrow> ranje_Range list \<Rightarrow> nat list"
  MinPlacements :: "ranje_Range \<Rightarrow> nat"
  MayActivate :: gate
  MayDeactivate :: gate
  MayDrop :: gate
  Persist :: "ranje_Placement \<Rightarrow> PlacementState \<Rightarrow> bool"
  LoopVar :: loopvar

record orch =
  ks :: "ranje_Range list"
  opMoves :: "OpMove list"
  opSplits :: "RangeID \<rightharpoonup> OpSplit"
  opJoins :: "OpJoin list"
  events :: "event list"

text \<open>
  Modelled from the spec: the methods of a placement that the tick calls. \<open>Want\<close> records
  the desired state that the actuator will work towards, \<open>Failed\<close> tells whether an action was
  given up, \<open>DoneReplacing\<close> clears the annotation of a replacement, and
  \<open>Keyspace.PlacementToState\<close> moves the current state along the placement state machine and
  writes it through to the store. It returns an error and leaves the placement as it was when
  the machine has no such transition, and also when the write fails, the change being rolled
  back; the tick ignores the error and goes on. \<open>NewPlacement\<close> and \<open>NewReplacement\<close> append a
  pending placement to a range.
\<close>

definition Want :: "ranje_Placement \<Rightarrow> PlacementState \<Rightarrow> ranje_Placement" where
  "Want p s = p\<lparr>StateDesired := s\<rparr>"

definition Failed :: "ranje_Placement \<Rightarrow> Action \<Rightarrow> bool" where
  "Failed p a = (a \<in> failed p)"

definition DoneReplacing :: "ranje_Placement \<Rightarrow> ranje_Placement" where
  "DoneReplacing p = p\<lparr>IsReplacing := ''''\<rparr>"

definition Keyspace_PlacementToState ::
  "env \<Rightarrow> ranje_Placement \<Rightarrow> PlacementState \<Rightarrow> ranje_Placement" where
  "Keyspace_PlacementToState env p new =
     (if placement_transition (StateCurrent p) new
      then (if Persist env p new then p\<lparr>StateCurrent := new\<rparr> else p)
      else p)"

definition NewPlacement :: "ranje_Range \<Rightarrow> NodeID \<Rightarrow> ranje_Range" where
  "NewPlacement r nID =
     r\<lparr>Placements := Placements r @
          [\<lparr>NodeID = nID, StateCurrent = PsPending, StateDesired = PsPending,
            IsReplacing = '''', failed = {}\<rparr>]\<rparr>"

definition NewReplacement :: "ranje_Range \<Rightarrow> NodeID \<Rightarrow> NodeID \<Rightarrow> ranje_Range" where
  "NewReplacement r destNodeID srcNodeID =
     r\<lparr>Placements := Placements r @
          [\<lparr>NodeID = destNodeID, StateCurrent = PsPending, StateDesired = PsPending,
            IsReplacing = srcNodeID, failed = {}\<rparr>]\<rparr>"

text \<open>Updates of one range, of one placement of a range, and of the event log.\<close>

definition upd_r :: "orch \<Rightarrow> nat \<Rightarrow> (ranje_Range \<Rightarrow> ranje_Range) \<Rightarrow> orch" where
  "upd_r s ri f = s\<lparr>ks := (ks s)[ri := f (ks s ! ri)]\<rparr>"

definition set_p :: "ranje_Range list \<Rightarrow> nat \<Rightarrow> nat \<Rightarrow> ranje_Placement \<Rightarrow> ranje_Range list" where
  "set_p k ri pi p = k[ri := (k ! ri)\<lparr>Placements := (Placements (k ! ri))[pi := p]\<rparr>]"

definition emit :: "orch \<Rightarrow> event list \<Rightarrow> orch" where
  "emit s es = s\<lparr>events := events s @ es\<rparr>"

section \<open>\<open>tickPlacement\<close>\<close>

text \<open>
  One function for each case of the switch on the current state. The result is the flag
  \<open>destroy\<close> and the placement as the case leaves it.
\<close>

definition tick_Pending ::
  "env \<Rightarrow> Node \<Rightarrow> RangeID \<Rightarrow> ranje_Placement \<Rightarrow> bool \<times> ranje_Placement" where
  "tick_Pending env n rID p =
     (let doPlace = (Failed p Prepare, Want p PsInactive)
      in case remote n rID of
           None \<Rightarrow> doPlace
         | Some ns \<Rightarrow>
             (case ns of
                NsPreparing \<Rightarrow> (False, Want p PsInactive)
              | NsInactive \<Rightarrow> (False, Keyspace_PlacementToState env p PsInactive)
              | NsNotFound \<Rightarrow> doPlace
              | _ \<Rightarrow> (False, Keyspace_PlacementToState env p PsMissing)))"

definition tick_Inactive ::
  "env \<Rightarrow> Operation option \<Rightarrow> Node \<Rightarrow> ranje_Range list \<Rightarrow> ranje_Range \<Rightarrow> ranje_Placement
     \<Rightarrow> bool \<times> ranje_Placement" where
  "tick_Inactive env op n k r p =
     (case remote n (Ident (Meta r)) of
        None \<Rightarrow>
          if Failed p Activate then (True, p)
          else if MayDrop env op k p r then (False, Keyspace_PlacementToState env p PsDropped)
          else (False, Keyspace_PlacementToState env p PsMissing)
      | Some ns \<Rightarrow>
          (case ns of
             NsInactive \<Rightarrow>
               if MayActivate env op k p r then (False, Want p PsActive)
               else if MayDrop env op k p r then (False, Want p PsDropped)
               else (False, p)
           | NsActivating \<Rightarrow> (False, Want p PsActive)
           | NsDropping \<Rightarrow> (False, Want p PsDropped)
           | NsActive \<Rightarrow> (False, Keyspace_PlacementToState env p PsActive)
           | _ \<Rightarrow> (False, Keyspace_PlacementToState env p PsMissing)))"

definition tick_Active ::
  "env \<Rightarrow> Operation option \<Rightarrow> Node \<Rightarrow> ranje_Range list \<Rightarrow> ranje_Range \<Rightarrow> ranje_Placement
     \<Rightarrow> bool \<times> ranje_Placement" where
  "tick_Active env op n k r p =
     (case remote n (Ident (Meta r)) of
        None \<Rightarrow> (False, Keyspace_PlacementToState env p PsMissing)
      | Some ns \<Rightarrow>
          (case ns of
             NsActive \<Rightarrow>
               if MayDeactivate env op k p r then (False, Want p PsInactive) else (False, p)
           | NsDeactivating \<Rightarrow> (False, Want p PsInactive)
           | NsInactive \<Rightarrow> (False, Keyspace_PlacementToState env p PsInactive)
           | _ \<Rightarrow> (False, Keyspace_PlacementToState env p PsMissing)))"

text \<open>
  Before the switch: the annotation of a replacement is cleared when the placement it replaces
  is gone from the range, and a move is queued when the node wants to be drained.
\<close>

definition clear_replacing :: "ranje_Range \<Rightarrow> ranje_Placement \<Rightarrow> ranje_Placement" where
  "clear_replacing r p =
     (if IsReplacing p \<noteq> '''' \<and> \<not> list_ex (\<lambda>pp. IsReplacing p = NodeID pp) (Placements r)
      then DoneReplacing p else p)"

definition drain_move :: "Node option \<Rightarrow> RangeID \<Rightarrow> NodeID \<Rightarrow> OpMove list" where
  "drain_move n rID nID =
     (case n of
        None \<Rightarrow> []
      | Some nd \<Rightarrow>
          if WantDrain nd
          then [\<lparr>OpMove.Range = rID, Src = nID, Dest = '''', OpMove.Err = None\<rparr>]
          else [])"

text \<open>
  The switch itself. An unknown placement state panics (\<open>None\<close>). With no node (only a
  Missing or Dropped placement gets this far without one) the other cases would dereference
  a nil node.
\<close>

definition tick_state ::
  "env \<Rightarrow> Operation option \<Rightarrow> Node option \<Rightarrow> ranje_Range list \<Rightarrow> ranje_Range \<Rightarrow> ranje_Placement
     \<Rightarrow> (bool \<times> ranje_Placement) option" where
  "tick_state env op n k r p =
     (case StateCurrent p of
        PsPending \<Rightarrow> map_option (\<lambda>nd. tick_Pending env nd (Ident (Meta r)) p) n
      | PsInactive \<Rightarrow> map_option (\<lambda>nd. tick_Inactive env op nd k r p) n
      | PsActive \<Rightarrow> map_option (\<lambda>nd. tick_Active env op nd k r p) n
      | PsMissing \<Rightarrow> Some (False, Keyspace_PlacementToState env p PsDropped)
      | PsDropped \<Rightarrow> Some (True, p)
      | PsUnknown \<Rightarrow> None)"

text \<open>
  \<open>tickPlacement\<close> on the placement at position \<open>pi\<close> of the range at position \<open>ri\<close>: the
  flag, the placement afterwards, and the moves queued.
\<close>

definition tickPlacement_at ::
  "env \<Rightarrow> Operation option \<Rightarrow> ranje_Range list \<Rightarrow> nat \<Rightarrow> nat
     \<Rightarrow> (bool \<times> ranje_Placement \<times> OpMove list) option" where
  "tickPlacement_at env op k ri pi =
     (let p = Placements (k ! ri) ! pi; n = NodeByIdent env (NodeID p) in
      if n = None \<and> StateCurrent p \<noteq> PsMissing \<and> StateCurrent p \<noteq> PsDropped
      then Some (False, Keyspace_PlacementToState env p PsMissing, [])
      else
        let p1 = clear_replacing (k ! ri) p;
            k1 = set_p k ri pi p1;
            r1 = k1 ! ri;
            moves = drain_move n (Ident (Meta r1)) (NodeID p)
        in map_option (\<lambda>(d, p2). (d, p2, moves)) (tick_state env op n k1 r1 p1))"

definition tickPlacement ::
  "env \<Rightarrow> Operation option \<Rightarrow> nat \<Rightarrow> nat \<Rightarrow> orch \<Rightarrow> (bool \<times> orch) option" where
  "tickPlacement env op ri pi s =
     map_option (\<lambda>(d, p', moves). (d, s\<lparr>ks := set_p (ks s) ri pi p', opMoves := opMoves s @ moves\<rparr>))
       (tickPlacement_at env op (ks s) ri pi)"

section \<open>\<open>tickRange\<close>\<close>

text \<open>
  The loop over the placements collects the positions to destroy; the second loop then deletes
  them one at a time with \<open>append(ps[:idx], ps[idx+1:]...)\<close>, which panics when \<open>idx + 1\<close>
  exceeds the length that the slice has by then.
\<close>

fun tick_placements ::
  "env \<Rightarrow> Operation option \<Rightarrow> nat \<Rightarrow> nat list \<Rightarrow> orch \<Rightarrow> (nat list \<times> orch) option" where
  "tick_placements env op ri [] s = Some ([], s)"
| "tick_placements env op ri (i # rest) s =
     (case tickPlacement env op ri i s of
        None \<Rightarrow> None
      | Some (d, s') \<Rightarrow>
          (case tick_placements env op ri rest s' of
             None \<Rightarrow> None
           | Some (ds, s'') \<Rightarrow> Some ((if d then [i] else []) @ ds, s'')))"

fun destroy :: "nat list \<Rightarrow> 'a list \<Rightarrow> 'a list option" where
  "destroy [] ps = Some ps"
| "destroy (idx # rest) ps =
     (if idx + 1 > length ps then None
      else destroy rest (take idx ps @ drop (idx + 1) ps))"

definition tick_all_placements :: "env \<Rightarrow> Operation option \<Rightarrow> nat \<Rightarrow> orch \<Rightarrow> orch option" where
  "tick_all_placements env op ri s =
     (case tick_placements env op ri [0 ..< length (Placements (ks s ! ri))] s of
        None \<Rightarrow> None
      | Some (toDestroy, s') \<Rightarrow>
          (case destroy toDestroy (Placements (ks s' ! ri)) of
             None \<Rightarrow> None
           | Some ps \<Rightarrow> Some (upd_r s' ri (\<lambda>r. r\<lparr>Placements := ps\<rparr>))))"

text \<open>
  The part of \<open>tickRange\<close> for an active range either goes on to the placements or returns
  from \<open>tickRange\<close> at once.
\<close>

datatype flow = Continue orch | Return orch

definition place_missing :: "env \<Rightarrow> nat \<Rightarrow> orch \<Rightarrow> flow" where
  "place_missing env ri s =
     (let r = ks s ! ri in
      if length (Placements r) < MinPlacements env r then
        (case Candidate env (ks s) (Some r) AnyNode of
           Inl err \<Rightarrow> Return s
         | Inr nID \<Rightarrow> Continue (upd_r s ri (\<lambda>r. NewPlacement r nID)))
      else Continue s)"

fun moveOp_find :: "RangeID \<Rightarrow> OpMove list \<Rightarrow> (OpMove \<times> OpMove list) option" where
  "moveOp_find rID [] = None"
| "moveOp_find rID (m # ms) =
     (if OpMove.Range m = rID then Some (m, ms)
      else map_option (\<lambda>(x, rest). (x, m # rest)) (moveOp_find rID ms))"

definition moveOp :: "orch \<Rightarrow> RangeID \<Rightarrow> OpMove option \<times> orch" where
  "moveOp s rID =
     (case moveOp_find rID (opMoves s) of
        None \<Rightarrow> (None, s)
      | Some (m, rest) \<Rightarrow> (Some m, s\<lparr>opMoves := rest\<rparr>))"

definition doMove :: "env \<Rightarrow> nat \<Rightarrow> OpMove \<Rightarrow> orch \<Rightarrow> orch_error + orch" where
  "doMove env ri opMove s =
     (let r = ks s ! ri;
          src = (if Src opMove \<noteq> ''''
                 then (case find (\<lambda>p. NodeID p = Src opMove) (Placements r) of
                         None \<Rightarrow> Inl (SrcNotFound (Ident (Meta r)) (Src opMove))
                       | Some p \<Rightarrow> Inr p)
                 else (case find (\<lambda>p. StateCurrent p = PsActive) (Placements r) of
                         None \<Rightarrow> Inl (NoActivePlacement (Ident (Meta r)))
                       | Some p \<Rightarrow> Inr p))
      in case src of
           Inl err \<Rightarrow> Inl err
         | Inr src \<Rightarrow>
             (case find (\<lambda>p. IsReplacing p = NodeID src) (Placements r) of
                Some p \<Rightarrow> Inl (AlreadyReplaced (NodeID src) (NodeID p))
              | None \<Rightarrow>
                  (case Candidate env (ks s) (Some r) (Constraint (OpMove.Dest opMove)) of
                     Inl err \<Rightarrow> Inl (Plain err)
                   | Inr destNodeID \<Rightarrow>
                       Inr (emit (upd_r s ri (\<lambda>r. NewReplacement r destNodeID (NodeID src)))
                              (case OpMove.Err opMove of
                                 None \<Rightarrow> []
                               | Some c \<Rightarrow> [OnReplaced (Ident (Meta r)) destNodeID c])))))"

definition reject :: "chan option \<Rightarrow> orch_error \<Rightarrow> orch \<Rightarrow> orch" where
  "reject ch err s = (case ch of None \<Rightarrow> s | Some c \<Rightarrow> emit s [ChanSend c err, ChanClose c])"

definition move_phase :: "env \<Rightarrow> nat \<Rightarrow> orch \<Rightarrow> flow" where
  "move_phase env ri s =
     (case moveOp s (Ident (Meta (ks s ! ri))) of
        (None, s1) \<Rightarrow> Continue s1
      | (Some opMove, s1) \<Rightarrow>
          (case doMove env ri opMove (emit s1 [MoveRequest opMove]) of
             Inl err \<Rightarrow> Return (reject (OpMove.Err opMove) err (emit s1 [MoveRequest opMove]))
           | Inr s2 \<Rightarrow> Continue s2))"

definition split_phase :: "env \<Rightarrow> nat \<Rightarrow> orch \<Rightarrow> flow" where
  "split_phase env ri s0 =
     (let rID = Ident (Meta (ks s0 ! ri)) in
      case opSplits s0 rID of
        None \<Rightarrow> Continue s0
      | Some opSplit \<Rightarrow>
          (let s = emit (s0\<lparr>opSplits := (opSplits s0)(rID := None)\<rparr>) [SplitRequest opSplit];
               ch = OpSplit.Err opSplit
           in case Candidate env (ks s) None
                     (if OpSplit.Left opSplit \<noteq> '''' then Constraint (OpSplit.Left opSplit) else AnyNode) of
                Inl err \<Rightarrow> Return (reject ch (Plain err) s)
              | Inr nIDL \<Rightarrow>
             (case Candidate env (ks s) None
                     (if OpSplit.Right opSplit \<noteq> '''' then Constraint (OpSplit.Right opSplit) else AnyNode) of
                Inl err \<Rightarrow> Return (reject ch (Plain err) s)
              | Inr nIDR \<Rightarrow>
             (case Split env (ks s) ri (OpSplit.Key opSplit) of
                Inl err \<Rightarrow> Return (reject ch (Plain err) s)
              | Inr (rL, rR, ks') \<Rightarrow>
                  (let s1 = upd_r (s\<lparr>ks := ks'\<rparr>) rL (\<lambda>r. NewPlacement r nIDL);
                       s2 = upd_r s1 rR (\<lambda>r. NewPlacement r nIDR)
                   in Continue (case ch of None \<Rightarrow> s2 | Some c \<Rightarrow> emit s2 [OnObsolete rID c]))))))"

definition tick_active :: "env \<Rightarrow> nat \<Rightarrow> orch \<Rightarrow> flow" where
  "tick_active env ri s0 =
     (case place_missing env ri s0 of
        Return s \<Rightarrow> Return s
      | Continue s1 \<Rightarrow>
          (case move_phase env ri s1 of
             Return s \<Rightarrow> Return s
           | Continue s2 \<Rightarrow> split_phase env ri s2))"

definition tickRange :: "env \<Rightarrow> Operation option \<Rightarrow> nat \<Rightarrow> orch \<Rightarrow> orch option" where
  "tickRange env op ri s0 =
     (let s = emit s0 [TickRange (Ident (Meta (ks s0 ! ri)))] in
      case State (ks s ! ri) of
        RsActive \<Rightarrow>
          (case tick_active env ri s of
             Return s' \<Rightarrow> Some s'
           | Continue s' \<Rightarrow> tick_all_placements env op ri s')
      | RsSubsuming \<Rightarrow> tick_all_placements env op ri s
      | RsObsolete \<Rightarrow> tick_all_placements env op ri s
      | RsUnknown \<Rightarrow> None)"

section \<open>\<open>Tick\<close>\<close>

text \<open>
  The joins are applied first, then the ranges of the operations in flight are ticked, then
  every other range that existed when the tick began. The function \<open>fail\<close> of the loop over the
  joins runs within its own iteration and so reads the request at hand, but the callback given
  to \<open>OnReady\<close> runs in a later tick: \<open>captured\<close> is the request it will find in the loop
  variable then.
\<close>

definition join_attempt :: "env \<Rightarrow> OpJoin \<Rightarrow> ranje_Range list \<Rightarrow> orch_error + nat \<times> NodeID \<times> ranje_Range list" where
  "join_attempt env opJoin k =
     (case GetRange env k (OpJoin.Left opJoin) of
        Inl err \<Rightarrow> Inl (JoinInvalidLeft err (OpJoin.Left opJoin))
      | Inr r1 \<Rightarrow>
     (case GetRange env k (OpJoin.Right opJoin) of
        Inl err \<Rightarrow> Inl (JoinInvalidRight err (OpJoin.Right opJoin))
      | Inr r2 \<Rightarrow>
     (case Candidate env k None
             (if OpJoin.Dest opJoin \<noteq> '''' then Constraint (OpJoin.Dest opJoin) else AnyNode) of
        Inl err \<Rightarrow> Inl (JoinCandidate err)
      | Inr nIDr3 \<Rightarrow>
     (case JoinTwo env k r1 r2 of
        Inl err \<Rightarrow> Inl (JoinFailed err (OpJoin.Left opJoin) (OpJoin.Right opJoin))
      | Inr (r3, k') \<Rightarrow> Inr (r3, nIDr3, k')))))"

definition captured :: "env \<Rightarrow> OpJoin list \<Rightarrow> OpJoin \<Rightarrow> OpJoin" where
  "captured env queue opJoin = (case LoopVar env of PerLoop \<Rightarrow> last queue | PerIteration \<Rightarrow> opJoin)"

definition apply_join :: "env \<Rightarrow> OpJoin list \<Rightarrow> OpJoin \<Rightarrow> orch \<Rightarrow> orch" where
  "apply_join env queue opJoin s0 =
     (let s = emit s0 [JoinRequest opJoin] in
      case join_attempt env opJoin (ks s) of
        Inl err \<Rightarrow> reject (OpJoin.Err opJoin) err s
      | Inr (r3, nIDr3, k') \<Rightarrow>
          (let s1 = upd_r (s\<lparr>ks := k'\<rparr>) r3 (\<lambda>r. NewPlacement r nIDr3)
           in case OpJoin.Err opJoin of
                None \<Rightarrow> s1
              | Some c \<Rightarrow>
                  emit s1 [OnReady (Ident (Meta (ks s1 ! r3))) nIDr3
                             (OpJoin.Err (captured env queue opJoin))]))"

definition join_phase :: "env \<Rightarrow> orch \<Rightarrow> orch" where
  "join_phase env s = (fold (apply_join env (opJoins s)) (opJoins s) s)\<lparr>opJoins := []\<rparr>"

fun tick_op_ranges ::
  "env \<Rightarrow> Operation \<Rightarrow> nat list \<Rightarrow> RangeID list \<times> orch \<Rightarrow> (RangeID list \<times> orch) option" where
  "tick_op_ranges env op [] (visited, s) = Some (visited, s)"
| "tick_op_ranges env op (ri # rest) (visited, s) =
     (case tickRange env (Some op) ri s of
        None \<Rightarrow> None
      | Some s' \<Rightarrow> tick_op_ranges env op rest (Ident (Meta (ks s' ! ri)) # visited, s'))"

fun tick_ops ::
  "env \<Rightarrow> Operation list \<Rightarrow> RangeID list \<times> orch \<Rightarrow> (RangeID list \<times> orch) option" where
  "tick_ops env [] (visited, s) = Some (visited, s)"
| "tick_ops env (op # ops) (visited, s) =
     (case CheckComplete env op (ks s) of
        (k', closed) \<Rightarrow>
          (let s1 = emit (s\<lparr>ks := k'\<rparr>) (map ChanClose closed) in
           case tick_op_ranges env op (OpRanges env op (ks s1)) (visited, s1) of
             None \<Rightarrow> None
           | Some vs \<Rightarrow> tick_ops env ops vs))"

definition ops_phase :: "env \<Rightarrow> orch \<Rightarrow> (RangeID list \<times> orch) option" where
  "ops_phase env s =
     (case Operations env (ks s) of
        Inl err \<Rightarrow> Some ([], s)
      | Inr ops \<Rightarrow> tick_ops env ops ([], s))"

fun ranges_phase :: "env \<Rightarrow> RangeID list \<Rightarrow> nat list \<Rightarrow> orch \<Rightarrow> orch option" where
  "ranges_phase env visited [] s = Some s"
| "ranges_phase env visited (ri # rest) s =
     (if State (ks s ! ri) = RsObsolete then ranges_phase env visited rest s
      else if Ident (Meta (ks s ! ri)) \<in> set visited then ranges_phase env visited rest s
      else case tickRange env None ri s of
             None \<Rightarrow> None
           | Some s' \<Rightarrow> ranges_phase env visited rest s')"

definition Tick :: "env \<Rightarrow> orch \<Rightarrow> orch option" where
  "Tick env s0 =
     (let rs = [0 ..< length (ks s0)];
          s1 = join_phase env s0
      in case ops_phase env s1 of
           None \<Rightarrow> None
         | Some (visited, s2) \<Rightarrow> ranges_phase env visited rs s2)"

section \<open>Example rosters and keyspaces\<close>

text \<open>
  An environment with the given roster in which nothing else happens: no candidate is ever
  found, no operation is in flight, every gate refuses, a range wants one placement, and every
  write to the store succeeds.
\<close>

definition find_range :: "ranje_Range list \<Rightarrow> RangeID \<Rightarrow> error + nat" where
  "find_range k rID =
     (case find (\<lambda>i. Ident (Meta (k ! i)) = rID) [0 ..< length k] of
        None \<Rightarrow> Inl ErrNotFound | Some i \<Rightarrow> Inr i)"

definition quiet_env :: "(NodeID \<Rightarrow> Node option) \<Rightarrow> env" where
  "quiet_env roster =
     \<lparr>NodeByIdent = roster,
      Candidate = (\<lambda>k r c. Inl ErrNoCandidate),
      GetRange = find_range,
      JoinTwo = (\<lambda>k a b. Inl ErrNotFound),
      Split = (\<lambda>k a key. Inl ErrNotFound),
      Operations = (\<lambda>k. Inr []),
      CheckComplete = (\<lambda>op k. (k, [])),
      OpRanges = (\<lambda>op k. []),
      MinPlacements = (\<lambda>r. 1),
      MayActivate = (\<lambda>op k p r. False),
      MayDeactivate = (\<lambda>op k p r. False),
      MayDrop = (\<lambda>op k p r. False),
      Persist = (\<lambda>p new. True),
      LoopVar = PerLoop\<rparr>"

text \<open>A placement at rest in a state, a keyspace of one active range, a node with one report.\<close>

definition placed :: "NodeID \<Rightarrow> PlacementState \<Rightarrow> ranje_Placement" where
  "placed n st = \<lparr>NodeID = n, StateCurrent = st, StateDesired = st, IsReplacing = '''', failed = {}\<rparr>"

definition one_range :: "ranje_Placement list \<Rightarrow> orch" where
  "one_range ps =
     \<lparr>ks = [\<lparr>Meta = \<lparr>Ident = 1, Start = '''', End = ''''\<rparr>, State = RsActive,
             Parents = [], Children = [], Placements = ps\<rparr>],
      opMoves = [], opSplits = Map.empty, opJoins = [], events = []\<rparr>"

definition reporting :: "RemoteState \<Rightarrow> Node" where
  "reporting ns = \<lparr>remote = [1 \<mapsto> ns], WantDrain = False\<rparr>"

text \<open>
  A move in its middle: the range is active on \<open>aaa\<close>, and its replacement on \<open>bbb\<close> is
  prepared and waits to be activated.
\<close>

definition mid_move :: orch where
  "mid_move = one_range [placed ''aaa'' PsActive, (placed ''bbb'' PsInactive)\<lparr>IsReplacing := ''aaa''\<rparr>]"

section \<open>Reading the event log\<close>

text \<open>
  The join requests that a stretch of the log marks as taken from the queue, in order, and the
  events that applying a join can produce: the mark, a send and a close on the operator's
  channel, and the callback registered on the new placement.
\<close>

definition joins_of :: "event list \<Rightarrow> OpJoin list" where
  "joins_of es = concat (map (\<lambda>e. case e of JoinRequest j \<Rightarrow> [j] | _ \<Rightarrow> []) es)"

definition join_event :: "event \<Rightarrow> bool" where
  "join_event e =
     (case e of JoinRequest j \<Rightarrow> True | ChanSend c err \<Rightarrow> True | ChanClose c \<Rightarrow> True
              | OnReady rID nID c \<Rightarrow> True | _ \<Rightarrow> False)"

text \<open>The state of the tick when the first \<open>i\<close> join requests of the queue have been applied.\<close>

definition joined :: "env \<Rightarrow> orch \<Rightarrow> nat \<Rightarrow> orch" where
  "joined env s i = fold (apply_join env (opJoins s)) (take i (opJoins s)) s"

text \<open>
  What a rejected join request leaves behind: the keyspace and the queues as they were, and in
  the log the mark of the request and, when the request carries a channel, the error sent on
  the channel followed by the closing of the channel.
\<close>

definition rejection :: "OpJoin \<Rightarrow> orch_error \<Rightarrow> orch \<Rightarrow> orch" where
  "rejection j err b =
     b\<lparr>events := events b @ JoinRequest j #
          (case OpJoin.Err j of None \<Rightarrow> [] | Some c \<Rightarrow> [ChanSend c err, ChanClose c])\<rparr>"

text \<open>
  \<open>later_only s s'\<close>: from \<open>s\<close> to \<open>s'\<close> the log has only grown, and by no join request.
\<close>

definition later_only :: "orch \<Rightarrow> orch \<Rightarrow> bool" where
  "later_only s s' = (\<exists>es. events s' = events s @ es \<and> joins_of es = [])"

text \<open>The state that a part of \<open>tickRange\<close> ends in, whichever way it leaves.\<close>

fun flow_state :: "flow \<Rightarrow> orch" where
  "flow_state (Continue s) = s"
| "flow_state (Return s) = s"

section \<open>An example join\<close>

text \<open>
  Two adjacent ranges, active on \<open>aaa\<close> and \<open>bbb\<close>, and the request of an operator, who waits
  on channel 7, to join them on \<open>ccc\<close>. In the environment \<open>join_env\<close> the keyspace joins two
  active ranges of which the first ends where the second starts: both become Subsuming and the
  new range, which spans them, is added at the end; the operation in flight then has the
  three ranges as its participants; a candidate is the node that the constraint names.
\<close>

definition join_ranges :: "ranje_Range list \<Rightarrow> nat \<Rightarrow> nat \<Rightarrow> error + nat \<times> ranje_Range list" where
  "join_ranges k r1 r2 =
     (if State (k ! r1) = RsActive \<and> State (k ! r2) = RsActive \<and>
         End (Meta (k ! r1)) = Start (Meta (k ! r2))
      then Inr (length k,
             k[r1 := (k ! r1)\<lparr>State := RsSubsuming, Children := [of_nat (length k) + 1]\<rparr>,
               r2 := (k ! r2)\<lparr>State := RsSubsuming, Children := [of_nat (length k) + 1]\<rparr>]
             @ [\<lparr>Meta = \<lparr>Ident = of_nat (length k) + 1,
                         Start = Start (Meta (k ! r1)), End = End (Meta (k ! r2))\<rparr>,
                 State = RsActive,
                 Parents = [Ident (Meta (k ! r1)), Ident (Meta (k ! r2))],
                 Children = [], Placements = []\<rparr>])
      else Inl ErrNotAdjacent)"

definition join_env :: "(NodeID \<Rightarrow> Node option) \<Rightarrow> env" where
  "join_env roster =
     (quiet_env roster)
       \<lparr>Candidate := (\<lambda>k r c. case c of Constraint n \<Rightarrow> if n = '''' then Inl ErrNoCandidate else Inr n),
        JoinTwo := join_ranges,
        Operations := (\<lambda>k. Inr (if length k = 3 then [\<lparr>parents = [1, 2], children = [3]\<rparr>] else [])),
        OpRanges := (\<lambda>op k. [0, 1, 2])\<rparr>"

definition join_roster :: "NodeID \<Rightarrow> Node option" where
  "join_roster =
     [''aaa'' \<mapsto> \<lparr>remote = [1 \<mapsto> NsActive], WantDrain = False\<rparr>,
      ''bbb'' \<mapsto> \<lparr>remote = [2 \<mapsto> NsActive], WantDrain = False\<rparr>,
      ''ccc'' \<mapsto> \<lparr>remote = Map.empty, WantDrain = False\<rparr>]"

definition the_join :: OpJoin where
  "the_join = \<lparr>OpJoin.Left = 1, OpJoin.Right = 2, OpJoin.Dest = ''ccc'', OpJoin.Err = Some 7\<rparr>"

definition before_join :: orch where
  "before_join =
     \<lparr>ks = [\<lparr>Meta = \<lparr>Ident = 1, Start = '''', End = ''ggg''\<rparr>, State = RsActive,
             Parents = [], Children = [], Placements = [placed ''aaa'' PsActive]\<rparr>,
            \<lparr>Meta = \<lparr>Ident = 2, Start = ''ggg'', End = ''''\<rparr>, State = RsActive,
             Parents = [], Children = [], Placements = [placed ''bbb'' PsActive]\<rparr>],
      opMoves = [], opSplits = Map.empty, opJoins = [the_join], events = []\<rparr>"

definition after_join :: orch where
  "after_join =
     \<lparr>ks = [\<lparr>Meta = \<lparr>Ident = 1, Start = '''', End = ''ggg''\<rparr>, State = RsSubsuming,
             Parents = [], Children = [3], Placements = [placed ''aaa'' PsActive]\<rparr>,
            \<lparr>Meta = \<lparr>Ident = 2, Start = ''ggg'', End = ''''\<rparr>, State = RsSubsuming,
             Parents = [], Children = [3], Placements = [placed ''bbb'' PsActive]\<rparr>,
            \<lparr>Meta = \<lparr>Ident = 3, Start = '''', End = ''''\<rparr>, State = RsActive,
             Parents = [1, 2], Children = [],
             Placements = [(placed ''ccc'' PsPending)\<lparr>StateDesired := PsInactive\<rparr>]\<rparr>],
      opMoves = [], opSplits = Map.empty, opJoins = [],
      events = [JoinRequest the_join, OnReady 3 ''ccc'' (Some 7),
                TickRange 1, TickRange 2, TickRange 3]\<rparr>"

section \<open>Placements that cover a key\<close>

text \<open>
  A range covers the keys from its start up to, but not including, its end; the zero key as a
  bound means that the range is unbounded on that side (\<open>RangeMeta.Contains\<close>). The placements
  that cover a key are those of all the ranges that cover it, parents and children alike.
\<close>

definition covers :: "ranje_Range \<Rightarrow> Key \<Rightarrow> bool" where
  "covers r key =
     ((Start (Meta r) = ZeroKey \<or> Start (Meta r) \<le> key) \<and>
      (End (Meta r) = ZeroKey \<or> key < End (Meta r)))"

definition covering :: "ranje_Range list \<Rightarrow> Key \<Rightarrow> ranje_Placement list" where
  "covering k key = concat (map Placements (filter (\<lambda>r. covers r key) k))"

text \<open>
  A placement is hot when it is Active or the orchestrator wants it Active. A keyspace is
  exclusive when no key is covered by two hot placements.
\<close>

definition hot :: "ranje_Placement \<Rightarrow> bool" where
  "hot p = (StateCurrent p = PsActive \<or> StateDesired p = PsActive)"


section \<open>Nodes that follow the protocol\<close>

text \<open>
  A roster is a table of nodes. A node is activating a range when its last report for the range
  is Activating or Active. The reports are solicited when every Inactive placement whose node
  is activating its range is one that the orchestrator wants Active, and a change of the
  roster follows the protocol when no node starts activating a range for which its Inactive
  placement is not wanted Active: a node activates a range only when it is told to.
\<close>

type_synonym roster = "NodeID \<Rightarrow> Node option"

definition activating :: "roster \<Rightarrow> NodeID \<Rightarrow> RangeID \<Rightarrow> bool" where
  "activating ro nID rID =
     (case ro nID of
        None \<Rightarrow> False
      | Some n \<Rightarrow> remote n rID = Some NsActivating \<or> remote n rID = Some NsActive)"

definition solicited_at :: "roster \<Rightarrow> RangeID \<Rightarrow> ranje_Placement \<Rightarrow> bool" where
  "solicited_at ro rID q =
     (StateCurrent q = PsInactive \<and> activating ro (NodeID q) rID \<longrightarrow> StateDesired q = PsActive)"


definition follows_protocol :: "ranje_Range list \<Rightarrow> roster \<Rightarrow> roster \<Rightarrow> bool" where
  "follows_protocol k ro ro' =
     (\<forall>r \<in> set k. \<forall>q \<in> set (Placements r).
        StateCurrent q = PsInactive \<and> activating ro' (NodeID q) (Ident (Meta r)) \<and>
        \<not> activating ro (NodeID q) (Ident (Meta r)) \<longrightarrow> StateDesired q = PsActive)"

section \<open>Environments that keep the ranges apart\<close>

text \<open>
  The gates and the operations of the keyspace are not part of this package. What the
  exclusion of Active placements needs of them is this. The gate \<open>MayActivate\<close> permits the
  activation of a placement only when no other placement that covers a key of its range is
  hot. A split, a join and the completion of an operation leave the bounds and the placements
  of the ranges there are as they find them, and the ranges that they add have no placements
  (the tick adds them itself) or placements that are neither hot nor Inactive, as a pending
  placement is.
\<close>

definition gate_exclusive :: "env \<Rightarrow> bool" where
  "gate_exclusive env =
     (\<forall>op k p r. MayActivate env op k p r \<longrightarrow>
        (\<forall>key. covers r key \<longrightarrow> (\<forall>q \<in> set (covering k key). hot q \<longrightarrow> q = p)))"

definition view :: "ranje_Range list \<Rightarrow> (api_Meta \<times> ranje_Placement list) list" where
  "view k = map (\<lambda>r. (Meta r, Placements r)) k"

definition frame :: "ranje_Range list \<Rightarrow> ranje_Range list \<Rightarrow> bool" where
  "frame k k' =
     (\<exists>news. view k' = view k @ news \<and>
        list_all (\<lambda>x. list_all (\<lambda>q. \<not> hot q \<and> StateCurrent q \<noteq> PsInactive) (snd x)) news)"

definition keyspace_framed :: "env \<Rightarrow> bool" where
  "keyspace_framed env =
     ((\<forall>k a b r3 k'. JoinTwo env k a b = Inr (r3, k') \<longrightarrow> frame k k') \<and>
      (\<forall>k a key rL rR k'. Split env k a key = Inr (rL, rR, k') \<longrightarrow> frame k k') \<and>
      (\<forall>op k k' cs. CheckComplete env op k = (k', cs) \<longrightarrow> frame k k'))"

section \<open>The orchestrator among its nodes and operators\<close>

text \<open>
  A state of the system is a roster and a state of the orchestrator. The system moves by a
  tick of the orchestrator, which reads the roster as it is and may run in any environment
  that keeps the ranges apart; by a change of the roster that follows the protocol, when nodes
  report, come or go; or by the requests of operators, which change the queues only.
\<close>

inductive step :: "roster \<times> orch \<Rightarrow> roster \<times> orch \<Rightarrow> bool" where
  tick: "gate_exclusive env \<Longrightarrow> keyspace_framed env \<Longrightarrow> NodeByIdent env = ro \<Longrightarrow>
         Tick env s = Some s' \<Longrightarrow> step (ro, s) (ro, s')"
| report: "follows_protocol (ks s) ro ro' \<Longrightarrow> step (ro, s) (ro', s)"
| request: "ks s' = ks s \<Longrightarrow> step (ro, s) (ro, s')"


section \<open>An example of a gate that keeps the ranges apart\<close>








section \<open>The gates of an operation\<close>






section \<open>An example split\<close>





chapter \<open>Package orchestrator: properties\<close>

lemmas example_defs = quiet_env_def placed_def one_range_def reporting_def find_range_def mid_move_def

lemmas tick_defs = Tick_def join_phase_def ops_phase_def tickRange_def tick_active_def
  place_missing_def move_phase_def moveOp_def split_phase_def tick_all_placements_def
  tickPlacement_def tickPlacement_at_def tick_state_def tick_Pending_def tick_Inactive_def
  tick_Active_def clear_replacing_def drain_move_def set_p_def upd_r_def emit_def
  Keyspace_PlacementToState_def placement_transition_def Want_def Failed_def DoneReplacing_def

section \<open>What the placement methods keep\<close>

lemma PlacementToState_fields [simp]:
  "NodeID (Keyspace_PlacementToState env p new) = NodeID p"
  "StateDesired (Keyspace_PlacementToState env p new) = StateDesired p"
  "IsReplacing (Keyspace_PlacementToState env p new) = IsReplacing p"
  by (simp_all add: Keyspace_PlacementToState_def)

lemma Want_fields [simp]:
  "NodeID (Want p new) = NodeID p" "StateCurrent (Want p new) = StateCurrent p"
  "StateDesired (Want p new) = new"
  by (simp_all add: Want_def)

lemma DoneReplacing_fields [simp]:
  "NodeID (DoneReplacing p) = NodeID p" "StateCurrent (DoneReplacing p) = StateCurrent p"
  "StateDesired (DoneReplacing p) = StateDesired p"
  by (simp_all add: DoneReplacing_def)

lemma clear_replacing_fields [simp]:
  "NodeID (clear_replacing r p) = NodeID p" "StateCurrent (clear_replacing r p) = StateCurrent p"
  "StateDesired (clear_replacing r p) = StateDesired p"
  by (simp_all add: clear_replacing_def)

lemma PlacementToState_cases:
  "Keyspace_PlacementToState env p new = p \<or>
   (Keyspace_PlacementToState env p new = p\<lparr>StateCurrent := new\<rparr> \<and>
    placement_transition (StateCurrent p) new \<and> Persist env p new)"
  by (simp add: Keyspace_PlacementToState_def)

section \<open>Missing and Dropped placements\<close>

lemma tickPlacement_at_Missing:
  assumes "StateCurrent (Placements (k ! ri) ! pi) = PsMissing"
      and "\<And>p. Persist env p PsDropped"
  shows "\<exists>p' ms. tickPlacement_at env op k ri pi = Some (False, p', ms) \<and>
           StateCurrent p' = PsDropped \<and>
           StateDesired p' = StateDesired (Placements (k ! ri) ! pi) \<and>
           NodeID p' = NodeID (Placements (k ! ri) ! pi)"
  using assms
  by (simp add: tickPlacement_at_def Let_def tick_state_def Keyspace_PlacementToState_def
      placement_transition_def)

lemma tickPlacement_at_Dropped:
  assumes "StateCurrent (Placements (k ! ri) ! pi) = PsDropped"
  shows "\<exists>p' ms. tickPlacement_at env op k ri pi = Some (True, p', ms) \<and>
           StateCurrent p' = PsDropped"
  using assms
  by (simp add: tickPlacement_at_def Let_def tick_state_def)

lemma destroy_single:
  "i < length ps \<Longrightarrow> destroy [i] ps = Some (take i ps @ drop (Suc i) ps)"
  by simp

text \<open>
  C9. A Missing placement becomes Dropped at the next tick of its range, when the store takes
  the write, and a Dropped placement is flagged for destruction (the two lemmas above), but the
  loop that destroys
  the flagged placements uses the positions collected before anything was deleted. From the
  second deletion on, each position is off by the number of deletions already made. With the
  placements \<open>aaa\<close> and \<open>bbb\<close> Dropped and \<open>ccc\<close> Active, the tick deletes \<open>aaa\<close> and then the
  Active placement \<open>ccc\<close>, and the Dropped placement \<open>bbb\<close> stays. With both placements of a
  move on nodes that have left the roster, the first tick makes them Missing, the second
  Dropped, and the third panics on a slice index out of range.
\<close>

theorem tickRange_destroys_wrong_placement:
  "map_option (\<lambda>s'. Placements (ks s' ! 0))
     (tickRange (quiet_env [''ccc'' \<mapsto> reporting NsActive]) None 0
        (one_range [placed ''aaa'' PsDropped, placed ''bbb'' PsDropped, placed ''ccc'' PsActive]))
     = Some [placed ''bbb'' PsDropped] \<and>
   map_option (\<lambda>s'. map StateCurrent (Placements (ks s' ! 0)))
     (Tick (quiet_env Map.empty) mid_move) = Some [PsMissing, PsMissing] \<and>
   map_option (\<lambda>s'. map StateCurrent (Placements (ks s' ! 0)))
     (Option.bind (Tick (quiet_env Map.empty) mid_move) (Tick (quiet_env Map.empty)))
     = Some [PsDropped, PsDropped] \<and>
   Option.bind (Option.bind (Tick (quiet_env Map.empty) mid_move) (Tick (quiet_env Map.empty)))
     (Tick (quiet_env Map.empty)) = None"
  by (simp add: example_defs tick_defs Let_def)

section \<open>Joins come first\<close>

lemma joins_of_simps [simp]:
  "joins_of [] = []"
  "joins_of (es @ fs) = joins_of es @ joins_of fs"
  "joins_of (JoinRequest j # es) = j # joins_of es"
  "joins_of (MoveRequest m # es) = joins_of es"
  "joins_of (SplitRequest sp # es) = joins_of es"
  "joins_of (TickRange rID # es) = joins_of es"
  "joins_of (ChanSend c err # es) = joins_of es"
  "joins_of (ChanClose c # es) = joins_of es"
  "joins_of (OnReady rID nID co # es) = joins_of es"
  "joins_of (OnObsolete rID c # es) = joins_of es"
  "joins_of (OnReplaced rID nID c # es) = joins_of es"
  by (simp_all add: joins_of_def)

lemma joins_of_ChanClose [simp]: "joins_of (map ChanClose cs) = []"
  by (induction cs) simp_all

lemma later_only_refl [simp]: "later_only s s"
  by (simp add: later_only_def)

lemma later_only_trans: "later_only s t \<Longrightarrow> later_only t u \<Longrightarrow> later_only s u"
  by (auto simp: later_only_def)

lemma later_only_events: "events s' = events s \<Longrightarrow> later_only s s'"
  by (simp add: later_only_def)

lemma later_only_emit: "joins_of es = [] \<Longrightarrow> later_only s (emit s es)"
  by (simp add: later_only_def emit_def)

lemma events_upd_r [simp]: "events (upd_r s ri f) = events s"
  by (simp add: upd_r_def)

lemma events_emit [simp]: "events (emit s es) = events s @ es"
  by (simp add: emit_def)

lemma later_only_reject: "later_only s (reject ch err s)"
  by (cases ch) (simp_all add: reject_def later_only_def)

lemma tickPlacement_events: "tickPlacement env op ri pi s = Some (d, s') \<Longrightarrow> events s' = events s"
  by (auto simp: tickPlacement_def)

lemma tick_placements_events:
  "tick_placements env op ri is s = Some (ds, s') \<Longrightarrow> events s' = events s"
proof (induction "is" arbitrary: s ds)
  case Nil
  then show ?case by simp
next
  case (Cons i rest)
  from Cons.prems obtain d s1 ds1 where
    step: "tickPlacement env op ri i s = Some (d, s1)" and
    rest: "tick_placements env op ri rest s1 = Some (ds1, s')"
    by (auto split: option.splits prod.splits)
  from Cons.IH [OF rest] tickPlacement_events [OF step] show ?case by simp
qed

lemma tick_all_placements_events:
  "tick_all_placements env op ri s = Some s' \<Longrightarrow> events s' = events s"
  by (auto simp: tick_all_placements_def tick_placements_events split: option.splits prod.splits)

lemma place_missing_events: "events (flow_state (place_missing env ri s)) = events s"
  by (simp add: place_missing_def Let_def split: sum.splits)

lemma moveOp_events: "moveOp s rID = (m, s1) \<Longrightarrow> events s1 = events s"
  by (auto simp: moveOp_def split: option.splits)

lemma doMove_later: "doMove env ri m s = Inr s' \<Longrightarrow> later_only s s'"
  by (auto simp: doMove_def Let_def later_only_def split: sum.splits option.splits if_splits)

lemma move_phase_later: "later_only s (flow_state (move_phase env ri s))"
proof (cases "moveOp s (Ident (Meta (ks s ! ri)))")
  case (Pair m s1)
  have ev: "events s1 = events s" using moveOp_events [OF Pair] .
  show ?thesis
  proof (cases m)
    case None
    with Pair ev show ?thesis by (simp add: move_phase_def later_only_events)
  next
    case (Some opMove)
    let ?s2 = "emit s1 [MoveRequest opMove]"
    have a: "later_only s ?s2" using ev by (simp add: later_only_def)
    show ?thesis
    proof (cases "doMove env ri opMove ?s2")
      case (Inl err)
      with Pair Some have "flow_state (move_phase env ri s) = reject (OpMove.Err opMove) err ?s2"
        by (simp add: move_phase_def)
      with a later_only_reject [of ?s2] show ?thesis by (auto intro: later_only_trans)
    next
      case (Inr s3)
      with Pair Some have "flow_state (move_phase env ri s) = s3"
        by (simp add: move_phase_def)
      with a doMove_later [OF Inr] show ?thesis by (auto intro: later_only_trans)
    qed
  qed
qed

lemma split_phase_later: "later_only s (flow_state (split_phase env ri s))"
  by (auto simp: split_phase_def Let_def later_only_def reject_def
      split: option.splits sum.splits prod.splits)

lemma tick_active_later: "later_only s (flow_state (tick_active env ri s))"
proof (cases "place_missing env ri s")
  case (Return s1)
  with place_missing_events [of env ri s] show ?thesis
    by (simp add: tick_active_def later_only_events)
next
  case (Continue s1)
  with place_missing_events [of env ri s] have a: "later_only s s1"
    by (simp add: later_only_events)
  show ?thesis
  proof (cases "move_phase env ri s1")
    case (Return s2)
    with Continue move_phase_later [of s1 env ri] a show ?thesis
      by (auto simp: tick_active_def intro: later_only_trans)
  next
    case c2: (Continue s2)
    with move_phase_later [of s1 env ri] have b: "later_only s1 s2" by simp
    from Continue c2 have "tick_active env ri s = split_phase env ri s2"
      by (simp add: tick_active_def)
    with split_phase_later [of s2 env ri] a b show ?thesis
      by (auto intro: later_only_trans)
  qed
qed

lemma tickRange_later:
  assumes "tickRange env op ri s = Some s'"
  shows "later_only s s'"
proof -
  let ?s1 = "emit s [TickRange (Ident (Meta (ks s ! ri)))]"
  have a: "later_only s ?s1" by (simp add: later_only_emit)
  have "later_only ?s1 s'"
  proof (cases "State (ks ?s1 ! ri)")
    case RsUnknown
    with assms show ?thesis by (simp add: tickRange_def Let_def)
  next
    case RsActive
    show ?thesis
    proof (cases "tick_active env ri ?s1")
      case (Return s2)
      with RsActive assms have "s' = s2" by (simp add: tickRange_def Let_def)
      with Return tick_active_later [of ?s1 env ri] show ?thesis by simp
    next
      case (Continue s2)
      with RsActive assms have "tick_all_placements env op ri s2 = Some s'"
        by (simp add: tickRange_def Let_def)
      from tick_all_placements_events [OF this] have "later_only s2 s'"
        by (simp add: later_only_events)
      with Continue tick_active_later [of ?s1 env ri] show ?thesis
        by (auto intro: later_only_trans)
    qed
  next
    case RsSubsuming
    with assms have "tick_all_placements env op ri ?s1 = Some s'"
      by (simp add: tickRange_def Let_def)
    from tick_all_placements_events [OF this] show ?thesis by (simp add: later_only_events)
  next
    case RsObsolete
    with assms have "tick_all_placements env op ri ?s1 = Some s'"
      by (simp add: tickRange_def Let_def)
    from tick_all_placements_events [OF this] show ?thesis by (simp add: later_only_events)
  qed
  with a show ?thesis by (rule later_only_trans)
qed

lemma tick_op_ranges_later:
  "tick_op_ranges env op rs (visited, s) = Some (visited', s') \<Longrightarrow> later_only s s'"
proof (induction rs arbitrary: visited s)
  case Nil
  then show ?case by simp
next
  case (Cons ri rest)
  from Cons.prems obtain s1 where
    step: "tickRange env (Some op) ri s = Some s1" and
    rest: "tick_op_ranges env op rest (Ident (Meta (ks s1 ! ri)) # visited, s1) = Some (visited', s')"
    by (auto split: option.splits)
  from tickRange_later [OF step] Cons.IH [OF rest] show ?case by (rule later_only_trans)
qed

lemma tick_ops_later:
  "tick_ops env ops (visited, s) = Some (visited', s') \<Longrightarrow> later_only s s'"
proof (induction ops arbitrary: visited s)
  case Nil
  then show ?case by simp
next
  case (Cons op rest)
  obtain k' closed where cc: "CheckComplete env op (ks s) = (k', closed)" by (cases "CheckComplete env op (ks s)")
  let ?s1 = "emit (s\<lparr>ks := k'\<rparr>) (map ChanClose closed)"
  from Cons.prems cc obtain v1 s2 where
    step: "tick_op_ranges env op (OpRanges env op (ks ?s1)) (visited, ?s1) = Some (v1, s2)" and
    rest: "tick_ops env rest (v1, s2) = Some (visited', s')"
    by (auto simp: Let_def split: option.splits)
  have "later_only s ?s1" by (simp add: later_only_def)
  from this tick_op_ranges_later [OF step] have "later_only s s2" by (rule later_only_trans)
  from this Cons.IH [OF rest] show ?case by (rule later_only_trans)
qed

lemma ops_phase_later: "ops_phase env s = Some (visited, s') \<Longrightarrow> later_only s s'"
  by (auto simp: ops_phase_def tick_ops_later split: sum.splits)

lemma ranges_phase_later: "ranges_phase env visited rs s = Some s' \<Longrightarrow> later_only s s'"
proof (induction rs arbitrary: s)
  case Nil
  then show ?case by simp
next
  case (Cons ri rest)
  show ?case
  proof (cases "State (ks s ! ri) = RsObsolete \<or> Ident (Meta (ks s ! ri)) \<in> set visited")
    case True
    with Cons.prems have "ranges_phase env visited rest s = Some s'"
      by (auto split: if_splits)
    then show ?thesis by (rule Cons.IH)
  next
    case False
    with Cons.prems obtain s1 where
      step: "tickRange env None ri s = Some s1" and
      rest: "ranges_phase env visited rest s1 = Some s'"
      by (auto split: option.splits if_splits)
    from tickRange_later [OF step] Cons.IH [OF rest] show ?thesis by (rule later_only_trans)
  qed
qed

lemma Tick_later:
  assumes "Tick env s0 = Some s'"
  shows "later_only (join_phase env s0) s'"
proof -
  from assms obtain visited s2 where
    ops: "ops_phase env (join_phase env s0) = Some (visited, s2)" and
    rs: "ranges_phase env visited [0 ..< length (ks s0)] s2 = Some s'"
    by (auto simp: Tick_def Let_def split: option.splits)
  from ops_phase_later [OF ops] ranges_phase_later [OF rs] show ?thesis by (rule later_only_trans)
qed

lemma apply_join_events:
  "\<exists>es. events (apply_join env q j s) = events s @ JoinRequest j # es \<and>
        joins_of es = [] \<and> list_all join_event es"
  by (auto simp: apply_join_def Let_def reject_def join_event_def
      split: sum.splits prod.splits option.splits)

lemma fold_apply_join_events:
  "\<exists>es. events (fold (apply_join env q) js s) = events s @ es \<and>
        joins_of es = js \<and> list_all join_event es"
proof (induction js arbitrary: s)
  case Nil
  then show ?case by simp
next
  case (Cons j rest)
  from apply_join_events [of env q j s] obtain es where
    es: "events (apply_join env q j s) = events s @ JoinRequest j # es"
        "joins_of es = []" "list_all join_event es" by blast
  from Cons.IH [of "apply_join env q j s"] obtain fs where
    fs: "events (fold (apply_join env q) rest (apply_join env q j s))
           = events (apply_join env q j s) @ fs"
        "joins_of fs = rest" "list_all join_event fs" by blast
  show ?case
  proof (intro exI [of _ "JoinRequest j # es @ fs"] conjI)
    show "events (fold (apply_join env q) (j # rest) s) = events s @ JoinRequest j # es @ fs"
      using es(1) fs(1) by simp
    show "joins_of (JoinRequest j # es @ fs) = j # rest" using es(2) fs(2) by simp
    show "list_all join_event (JoinRequest j # es @ fs)"
      using es(3) fs(3) by (simp add: join_event_def)
  qed
qed

lemma join_phase_joined:
  "join_phase env s = (joined env s (length (opJoins s)))\<lparr>opJoins := []\<rparr>"
  by (simp add: join_phase_def joined_def)

lemma joined_Suc:
  "i < length (opJoins s) \<Longrightarrow>
     joined env s (Suc i) = apply_join env (opJoins s) (opJoins s ! i) (joined env s i)"
  by (simp add: joined_def take_Suc_conv_app_nth)

lemma apply_join_rejected:
  "join_attempt env j (ks b) = Inl err \<Longrightarrow> apply_join env q j b = rejection j err b"
  by (simp add: apply_join_def Let_def reject_def emit_def rejection_def split: option.splits)

lemma Meta_after_update: "Meta (k[i := NewPlacement (k ! i) n] ! i) = Meta (k ! i)"
  by (cases "i < length k") (simp_all add: NewPlacement_def list_update_beyond)

lemma apply_join_accepted:
  assumes "join_attempt env j (ks b) = Inr (r3, nID, k')"
  shows "ks (apply_join env q j b) = k'[r3 := NewPlacement (k' ! r3) nID] \<and>
         events (apply_join env q j b) = events b @ JoinRequest j #
           (case OpJoin.Err j of None \<Rightarrow> []
            | Some c \<Rightarrow> [OnReady (Ident (Meta (k' ! r3))) nID (OpJoin.Err (captured env q j))]) \<and>
         opMoves (apply_join env q j b) = opMoves b \<and>
         opSplits (apply_join env q j b) = opSplits b"
  using assms
  by (simp add: apply_join_def Let_def upd_r_def emit_def Meta_after_update split: option.splits)

text \<open>
  C8. A tick applies the queued join requests before anything else. The log of a tick that
  returns is the log before it, then the events of the join phase, then the rest: the first
  stretch marks every queued join request, in order, and holds nothing but join events (no range
  is ticked and no move or split is taken up in it), and the rest marks no join request. The
  operations in flight and then the ranges are ticked from the state that the last join has
  left, with the queue of joins emptied. Each request is applied to the state that the one
  before it has left, like this. It is rejected when its left side is unknown, else when its
  right side is unknown, else when there is no candidate for the new range, else when the
  keyspace refuses the join: then nothing changes but the log, which gets the mark of the
  request and, when the request carries a channel, the error sent on that channel followed by
  the closing of the channel. Otherwise the join is made: the keyspace is the one that
  \<open>JoinTwo\<close> returns with a pending placement on the candidate added to the new range, and when
  the request carries a channel a callback is registered on that placement.
\<close>

theorem Tick_joins_first:
  assumes "Tick env s0 = Some s'"
  shows "(\<exists>js rest. events s' = events s0 @ js @ rest \<and>
            joins_of js = opJoins s0 \<and> list_all join_event js \<and> joins_of rest = []) \<and>
         (\<exists>visited s2.
            ops_phase env ((joined env s0 (length (opJoins s0)))\<lparr>opJoins := []\<rparr>) = Some (visited, s2) \<and>
            ranges_phase env visited [0 ..< length (ks s0)] s2 = Some s') \<and>
         (\<forall>i j b a c. i < length (opJoins s0) \<and> j = opJoins s0 ! i \<and> b = joined env s0 i \<and>
              a = joined env s0 (Suc i) \<and>
              c = (if OpJoin.Dest j \<noteq> '''' then Constraint (OpJoin.Dest j) else AnyNode) \<longrightarrow>
            (\<forall>e. GetRange env (ks b) (OpJoin.Left j) = Inl e \<longrightarrow>
                  a = rejection j (JoinInvalidLeft e (OpJoin.Left j)) b) \<and>
            (\<forall>r1 e. GetRange env (ks b) (OpJoin.Left j) = Inr r1 \<and>
                     GetRange env (ks b) (OpJoin.Right j) = Inl e \<longrightarrow>
                  a = rejection j (JoinInvalidRight e (OpJoin.Right j)) b) \<and>
            (\<forall>r1 r2 e. GetRange env (ks b) (OpJoin.Left j) = Inr r1 \<and>
                        GetRange env (ks b) (OpJoin.Right j) = Inr r2 \<and>
                        Candidate env (ks b) None c = Inl e \<longrightarrow>
                  a = rejection j (JoinCandidate e) b) \<and>
            (\<forall>r1 r2 nID e. GetRange env (ks b) (OpJoin.Left j) = Inr r1 \<and>
                        GetRange env (ks b) (OpJoin.Right j) = Inr r2 \<and>
                        Candidate env (ks b) None c = Inr nID \<and>
                        JoinTwo env (ks b) r1 r2 = Inl e \<longrightarrow>
                  a = rejection j (JoinFailed e (OpJoin.Left j) (OpJoin.Right j)) b) \<and>
            (\<forall>r1 r2 nID r3 k'. GetRange env (ks b) (OpJoin.Left j) = Inr r1 \<and>
                        GetRange env (ks b) (OpJoin.Right j) = Inr r2 \<and>
                        Candidate env (ks b) None c = Inr nID \<and>
                        JoinTwo env (ks b) r1 r2 = Inr (r3, k') \<longrightarrow>
                  ks a = k'[r3 := NewPlacement (k' ! r3) nID] \<and>
                  events a = events b @ JoinRequest j #
                    (case OpJoin.Err j of None \<Rightarrow> []
                     | Some ch \<Rightarrow> [OnReady (Ident (Meta (k' ! r3))) nID
                                     (OpJoin.Err (captured env (opJoins s0) j))])))"
proof (intro conjI)
  from Tick_later [OF assms] obtain rest where
    rest: "events s' = events (join_phase env s0) @ rest" "joins_of rest = []"
    by (auto simp: later_only_def)
  from fold_apply_join_events [of env "opJoins s0" "opJoins s0" s0] obtain js where
    js: "events (join_phase env s0) = events s0 @ js" "joins_of js = opJoins s0"
        "list_all join_event js"
    by (auto simp: join_phase_def)
  from rest js show "\<exists>js rest. events s' = events s0 @ js @ rest \<and>
            joins_of js = opJoins s0 \<and> list_all join_event js \<and> joins_of rest = []"
    by auto
next
  from assms show "\<exists>visited s2.
            ops_phase env ((joined env s0 (length (opJoins s0)))\<lparr>opJoins := []\<rparr>) = Some (visited, s2) \<and>
            ranges_phase env visited [0 ..< length (ks s0)] s2 = Some s'"
    by (auto simp: Tick_def Let_def join_phase_joined split: option.splits)
next
  show "\<forall>i j b a c. i < length (opJoins s0) \<and> j = opJoins s0 ! i \<and> b = joined env s0 i \<and>
              a = joined env s0 (Suc i) \<and>
              c = (if OpJoin.Dest j \<noteq> '''' then Constraint (OpJoin.Dest j) else AnyNode) \<longrightarrow>
            (\<forall>e. GetRange env (ks b) (OpJoin.Left j) = Inl e \<longrightarrow>
                  a = rejection j (JoinInvalidLeft e (OpJoin.Left j)) b) \<and>
            (\<forall>r1 e. GetRange env (ks b) (OpJoin.Left j) = Inr r1 \<and>
                     GetRange env (ks b) (OpJoin.Right j) = Inl e \<longrightarrow>
                  a = rejection j (JoinInvalidRight e (OpJoin.Right j)) b) \<and>
            (\<forall>r1 r2 e. GetRange env (ks b) (OpJoin.Left j) = Inr r1 \<and>
                        GetRange env (ks b) (OpJoin.Right j) = Inr r2 \<and>
                        Candidate env (ks b) None c = Inl e \<longrightarrow>
                  a = rejection j (JoinCandidate e) b) \<and>
            (\<forall>r1 r2 nID e. GetRange env (ks b) (OpJoin.Left j) = Inr r1 \<and>
                        GetRange env (ks b) (OpJoin.Right j) = Inr r2 \<and>
                        Candidate env (ks b) None c = Inr nID \<and>
                        JoinTwo env (ks b) r1 r2 = Inl e \<longrightarrow>
                  a = rejection j (JoinFailed e (OpJoin.Left j) (OpJoin.Right j)) b) \<and>
            (\<forall>r1 r2 nID r3 k'. GetRange env (ks b) (OpJoin.Left j) = Inr r1 \<and>
                        GetRange env (ks b) (OpJoin.Right j) = Inr r2 \<and>
                        Candidate env (ks b) None c = Inr nID \<and>
                        JoinTwo env (ks b) r1 r2 = Inr (r3, k') \<longrightarrow>
                  ks a = k'[r3 := NewPlacement (k' ! r3) nID] \<and>
                  events a = events b @ JoinRequest j #
                    (case OpJoin.Err j of None \<Rightarrow> []
                     | Some ch \<Rightarrow> [OnReady (Ident (Meta (k' ! r3))) nID
                                     (OpJoin.Err (captured env (opJoins s0) j))]))"
  proof (intro allI impI, elim conjE)
    fix i j b a c
    assume i: "i < length (opJoins s0)" and j: "j = opJoins s0 ! i" and b: "b = joined env s0 i"
       and a: "a = joined env s0 (Suc i)"
       and c: "c = (if OpJoin.Dest j \<noteq> '''' then Constraint (OpJoin.Dest j) else AnyNode)"
    have step: "a = apply_join env (opJoins s0) j b"
      using i j b a by (simp add: joined_Suc)
    show "(\<forall>e. GetRange env (ks b) (OpJoin.Left j) = Inl e \<longrightarrow>
                  a = rejection j (JoinInvalidLeft e (OpJoin.Left j)) b) \<and>
            (\<forall>r1 e. GetRange env (ks b) (OpJoin.Left j) = Inr r1 \<and>
                     GetRange env (ks b) (OpJoin.Right j) = Inl e \<longrightarrow>
                  a = rejection j (JoinInvalidRight e (OpJoin.Right j)) b) \<and>
            (\<forall>r1 r2 e. GetRange env (ks b) (OpJoin.Left j) = Inr r1 \<and>
                        GetRange env (ks b) (OpJoin.Right j) = Inr r2 \<and>
                        Candidate env (ks b) None c = Inl e \<longrightarrow>
                  a = rejection j (JoinCandidate e) b) \<and>
            (\<forall>r1 r2 nID e. GetRange env (ks b) (OpJoin.Left j) = Inr r1 \<and>
                        GetRange env (ks b) (OpJoin.Right j) = Inr r2 \<and>
                        Candidate env (ks b) None c = Inr nID \<and>
                        JoinTwo env (ks b) r1 r2 = Inl e \<longrightarrow>
                  a = rejection j (JoinFailed e (OpJoin.Left j) (OpJoin.Right j)) b) \<and>
            (\<forall>r1 r2 nID r3 k'. GetRange env (ks b) (OpJoin.Left j) = Inr r1 \<and>
                        GetRange env (ks b) (OpJoin.Right j) = Inr r2 \<and>
                        Candidate env (ks b) None c = Inr nID \<and>
                        JoinTwo env (ks b) r1 r2 = Inr (r3, k') \<longrightarrow>
                  ks a = k'[r3 := NewPlacement (k' ! r3) nID] \<and>
                  events a = events b @ JoinRequest j #
                    (case OpJoin.Err j of None \<Rightarrow> []
                     | Some ch \<Rightarrow> [OnReady (Ident (Meta (k' ! r3))) nID
                                     (OpJoin.Err (captured env (opJoins s0) j))]))"
    proof (intro conjI allI impI, goal_cases)
      case (1 e)
      then have "join_attempt env j (ks b) = Inl (JoinInvalidLeft e (OpJoin.Left j))"
        by (simp add: join_attempt_def)
      then show ?case unfolding step by (rule apply_join_rejected)
    next
      case (2 r1 e)
      then have "join_attempt env j (ks b) = Inl (JoinInvalidRight e (OpJoin.Right j))"
        by (simp add: join_attempt_def)
      then show ?case unfolding step by (rule apply_join_rejected)
    next
      case (3 r1 r2 e)
      then have "join_attempt env j (ks b) = Inl (JoinCandidate e)"
        using c by (simp add: join_attempt_def)
      then show ?case unfolding step by (rule apply_join_rejected)
    next
      case (4 r1 r2 nID e)
      then have "join_attempt env j (ks b) = Inl (JoinFailed e (OpJoin.Left j) (OpJoin.Right j))"
        using c by (simp add: join_attempt_def)
      then show ?case unfolding step by (rule apply_join_rejected)
    next
      case (5 r1 r2 nID r3 k')
      then have "join_attempt env j (ks b) = Inr (r3, nID, k')"
        using c by (simp add: join_attempt_def)
      from apply_join_accepted [OF this] show ?case unfolding step by simp
    next
      case (6 r1 r2 nID r3 k')
      then have "join_attempt env j (ks b) = Inr (r3, nID, k')"
        using c by (simp add: join_attempt_def)
      from apply_join_accepted [OF this] show ?case unfolding step by simp
    qed
  qed
qed

theorem Tick_joins_first_witness:
  "Tick (join_env join_roster) before_join = Some after_join \<and>
   (\<exists>js rest. events after_join = events before_join @ js @ rest \<and>
      joins_of js = [the_join] \<and> list_all join_event js \<and> joins_of rest = []) \<and>
   ks (joined (join_env join_roster) before_join 1) =
     (ks after_join)[2 := (ks after_join ! 2)\<lparr>Placements := [placed ''ccc'' PsPending]\<rparr>]"
proof -
  have t: "Tick (join_env join_roster) before_join = Some after_join"
    by (simp add: join_env_def join_roster_def before_join_def after_join_def the_join_def
          join_ranges_def captured_def apply_join_def join_attempt_def reject_def NewPlacement_def
          tick_op_ranges.simps tick_ops.simps example_defs tick_defs Let_def)
  from Tick_joins_first [OF t]
  have "\<exists>js rest. events after_join = events before_join @ js @ rest \<and>
          joins_of js = opJoins before_join \<and> list_all join_event js \<and> joins_of rest = []"
    by (rule conjunct1)
  moreover have "opJoins before_join = [the_join]" by (simp add: before_join_def)
  moreover have "ks (joined (join_env join_roster) before_join 1) =
     (ks after_join)[2 := (ks after_join ! 2)\<lparr>Placements := [placed ''ccc'' PsPending]\<rparr>]"
    by (simp add: joined_def join_env_def join_roster_def before_join_def after_join_def the_join_def
          join_ranges_def captured_def apply_join_def join_attempt_def reject_def NewPlacement_def
          example_defs upd_r_def emit_def Let_def)
  ultimately show ?thesis using t by simp
qed

section \<open>A second Active placement\<close>


section \<open>The placements that cover a key\<close>

lemma covering_Nil [simp]: "covering [] key = []"
  by (simp add: covering_def)











section \<open>Updates of a keyspace that keep the ranges apart\<close>








section \<open>The tick of a placement keeps the ranges apart\<close>


lemma hot_clear_replacing [simp]: "hot (clear_replacing r p) = hot p"
  by (simp add: hot_def)

lemma solicited_at_clear_replacing [simp]:
  "solicited_at ro rID (clear_replacing r p) = solicited_at ro rID p"
  by (simp add: solicited_at_def)








lemma set_p_twice [simp]: "set_p (set_p k ri pi p) ri pi p' = set_p k ri pi p'"
  by (cases "ri < length k") (simp_all add: set_p_def list_update_beyond)


lemma set_p_length [simp]: "length (set_p k ri pi p) = length k"
  by (simp add: set_p_def)










section \<open>The tick keeps the ranges apart\<close>





lemma ks_emit [simp]: "ks (emit s es) = ks s"
  by (simp add: emit_def)

lemma ks_reject [simp]: "ks (reject ch err s) = ks s"
  by (cases ch) (simp_all add: reject_def)















section \<open>At most one Active placement for a key\<close>
















section \<open>The gates of an operation in the tick of a placement\<close>











end
